theory Spec2Isabelle
  imports Complex_Main "HOL-Library.Sublist"
begin

section \<open>pygritbx: components, gears and the separable interpolator\<close>

text \<open>
  A shallow embedding of \<^verbatim>\<open>pygritbx/component.py\<close>, \<^verbatim>\<open>pygritbx/gear.py\<close> and
  \<^verbatim>\<open>makima2dInterpolator.py\<close>. Python floats and numpy float64 values are read as
  real numbers: rounding, overflow and NaN are outside the model, while every
  \<^verbatim>\<open>raise\<close>, every missing attribute and every division of Python floats by zero
  is a branch of it. A numpy array of three floats is a triple.
\<close>

subsection \<open>Three-vectors (numpy arrays of shape (3,))\<close>

type_synonym vec3 = "real \<times> real \<times> real"

definition zeros3 :: vec3 where
  "zeros3 = (0, 0, 0)"

fun vadd :: "vec3 \<Rightarrow> vec3 \<Rightarrow> vec3" where
  "vadd (a, b, c) (x, y, z) = (a + x, b + y, c + z)"

fun vsub :: "vec3 \<Rightarrow> vec3 \<Rightarrow> vec3" where
  "vsub (a, b, c) (x, y, z) = (a - x, b - y, c - z)"

fun vneg :: "vec3 \<Rightarrow> vec3" where
  "vneg (a, b, c) = (- a, - b, - c)"

fun vscale :: "real \<Rightarrow> vec3 \<Rightarrow> vec3" where
  "vscale k (a, b, c) = (k * a, k * b, k * c)"

fun vmul :: "vec3 \<Rightarrow> vec3 \<Rightarrow> vec3" where
  "vmul (a, b, c) (x, y, z) = (a * x, b * y, c * z)"

fun vabs :: "vec3 \<Rightarrow> vec3" where
  "vabs (a, b, c) = (\<bar>a\<bar>, \<bar>b\<bar>, \<bar>c\<bar>)"

fun vsum :: "vec3 \<Rightarrow> real" where
  "vsum (a, b, c) = a + b + c"

text \<open>\<^verbatim>\<open>np.cross\<close>.\<close>

fun cross :: "vec3 \<Rightarrow> vec3 \<Rightarrow> vec3" where
  "cross (a, b, c) (x, y, z) = (b * z - c * y, c * x - a * z, a * y - b * x)"

text \<open>\<^verbatim>\<open>all(v <= t * np.ones(3))\<close>.\<close>

fun all_le :: "vec3 \<Rightarrow> real \<Rightarrow> bool" where
  "all_le (a, b, c) t = (a \<le> t \<and> b \<le> t \<and> c \<le> t)"

subsection \<open>Errors and objects\<close>

text \<open>
  \<open>Unmodelled\<close> marks the two places where Python goes on with a value that a real
  number cannot stand for (a complex power, a numpy division by zero in the
  interpolator): the model stops there with this marker instead of an exception.
\<close>

datatype error =
    ValueError string
  | AttributeError string
  | IndexError
  | ZeroDivisionError
  | Unmodelled string

definition ebind :: "error + 'a \<Rightarrow> ('a \<Rightarrow> error + 'b) \<Rightarrow> error + 'b" where
  "ebind m f = (case m of Inl e \<Rightarrow> Inl e | Inr v \<Rightarrow> f v)"

text \<open>
  \<^verbatim>\<open>xs[i]\<close> on a sequence of length n: positions 0 to n - 1 from the front,
  -1 down to -n from the back, IndexError for any other index.
\<close>

definition py_get :: "'a list \<Rightarrow> int \<Rightarrow> error + 'a" where
  "py_get xs i =
     (if 0 \<le> i \<and> i < int (length xs) then Inr (xs ! nat i)
      else if i < 0 \<and> - int (length xs) \<le> i then Inr (xs ! nat (int (length xs) + i))
      else Inl IndexError)"

text \<open>\<^verbatim>\<open>num / den\<close> on Python floats raises when the divisor is zero.\<close>

definition py_div :: "real \<Rightarrow> real \<Rightarrow> error + real" where
  "py_div num den = (if den = 0 then Inl ZeroDivisionError else Inr (num / den))"

text \<open>
  Division of numpy float64 values does not raise: a zero divisor gives inf or nan
  (\<open>NonFinite\<close>), which later divisions by nonzero finite values keep.
\<close>

datatype npfloat = Finite real | NonFinite

fun np_div :: "npfloat \<Rightarrow> real \<Rightarrow> npfloat" where
  "np_div (Finite a) b = (if b = 0 then NonFinite else Finite (a / b))"
| "np_div NonFinite b = NonFinite"

text \<open>
  Python's \<^verbatim>\<open>b ** e\<close> on floats: \<^verbatim>\<open>0 ** e\<close> raises for a negative exponent, and a
  negative base with a fractional exponent gives a complex number.
\<close>

definition py_pow :: "real \<Rightarrow> real \<Rightarrow> error + real" where
  "py_pow b e =
     (if e = 0 then Inr 1
      else if 0 < b then Inr (b powr e)
      else if b = 0 then (if e < 0 then Inl ZeroDivisionError else Inr 0)
      else if e = of_int \<lfloor>e\<rfloor> then Inr (b powi \<lfloor>e\<rfloor>)
      else Inl (Unmodelled ''complex power''))"

text \<open>
  Objects live in a store and are named by their address, so that the membership test
  of \<^verbatim>\<open>updateEFs\<close> (numpy's \<^verbatim>\<open>in\<close> on an array of objects whose class defines no
  \<^verbatim>\<open>__eq__\<close>) is equality of addresses.
\<close>

type_synonym ref = nat

record Force =
  force :: vec3
  f_loc :: vec3

text \<open>
  Modelled from the spec: the class \<^verbatim>\<open>Torque\<close> (imported by gear.py from a module that
  is not among the sources): a 3-vector magnitude and an application point.
\<close>

record Torque =
  torque :: vec3
  t_loc :: vec3

text \<open>
  Modelled from the spec: the material of a component exposes \<^verbatim>\<open>name\<close> and the
  Brinell hardness \<^verbatim>\<open>HB\<close>.
\<close>

record Material =
  mat_name :: string
  HB :: real

subsection \<open>component.py: the dedup-append of external forces and torques\<close>

text \<open>
  \<^verbatim>\<open>for ef in EFs: if ef not in self.EFs: self.EFs = np.append(self.EFs, ef)\<close>;
  the first argument is \<^verbatim>\<open>self.EFs\<close>, the second the incoming list.
\<close>

fun updateEFs :: "'a list \<Rightarrow> 'a list \<Rightarrow> 'a list" where
  "updateEFs self_EFs [] = self_EFs"
| "updateEFs self_EFs (ef # EFs) =
     updateEFs (if ef \<notin> set self_EFs then self_EFs @ [ef] else self_EFs) EFs"

fun updateETs :: "'a list \<Rightarrow> 'a list \<Rightarrow> 'a list" where
  "updateETs self_ETs [] = self_ETs"
| "updateETs self_ETs (et # ETs) =
     updateETs (if et \<notin> set self_ETs then self_ETs @ [et] else self_ETs) ETs"

text \<open>
  \<^verbatim>\<open>checkForceEquilibrium\<close>: the sum of the force vectors of the external forces,
  and the message printed (True for "maintains a force equilibrium").
\<close>

fun sum_forces :: "(ref \<Rightarrow> Force) \<Rightarrow> vec3 \<Rightarrow> ref list \<Rightarrow> vec3" where
  "sum_forces forces eq [] = eq"
| "sum_forces forces eq (EF # EFs) = sum_forces forces (vadd eq (force (forces EF))) EFs"

definition checkForceEquilibrium :: "(ref \<Rightarrow> Force) \<Rightarrow> ref list \<Rightarrow> bool" where
  "checkForceEquilibrium forces self_EFs =
     all_le (sum_forces forces zeros3 self_EFs) (1 / 1000)"

subsection \<open>makima2dInterpolator.py\<close>

text \<open>
  scipy's \<^verbatim>\<open>Akima1DInterpolator\<close> is not part of the repository: it is the parameter
  \<open>Akima\<close>, whose constructor may raise and otherwise gives the interpolant. The
  divisions are numpy's; a zero divisor is \<open>Unmodelled\<close>.
\<close>

definition left_extrapolation :: "real list \<Rightarrow> real list \<Rightarrow> real \<Rightarrow> error + real" where
  "left_extrapolation x y_vals xq =
     ebind (py_get y_vals 1) (\<lambda>y1. ebind (py_get y_vals 0) (\<lambda>y0.
     ebind (py_get x 1) (\<lambda>x1. ebind (py_get x 0) (\<lambda>x0.
       if x1 - x0 = 0 then Inl (Unmodelled ''division by zero'')
       else let slope = (y1 - y0) / (x1 - x0) in Inr (y0 + slope * (xq - x0))))))"

definition right_extrapolation :: "real list \<Rightarrow> real list \<Rightarrow> real \<Rightarrow> error + real" where
  "right_extrapolation x y_vals xq =
     ebind (py_get y_vals (- 1)) (\<lambda>yl. ebind (py_get y_vals (- 2)) (\<lambda>yp.
     ebind (py_get x (- 1)) (\<lambda>xl. ebind (py_get x (- 2)) (\<lambda>xp.
       if xl - xp = 0 then Inl (Unmodelled ''division by zero'')
       else let slope = (yl - yp) / (xl - xp) in Inr (yl + slope * (xq - xl))))))"

definition akima_with_extrapolation ::
  "(real list \<Rightarrow> real list \<Rightarrow> error + (real \<Rightarrow> real)) \<Rightarrow>
   real list \<Rightarrow> real list \<Rightarrow> real \<Rightarrow> error + real" where
  "akima_with_extrapolation Akima x y_vals xq =
     ebind (Akima x y_vals) (\<lambda>akima.
       let result = akima xq in
       ebind (py_get x 0) (\<lambda>x0.
       ebind (if xq < x0 then left_extrapolation x y_vals xq else Inr result) (\<lambda>result.
       ebind (py_get x (- 1)) (\<lambda>xl.
         if xq > xl then right_extrapolation x y_vals xq else Inr result))))"

text \<open>The constructor's shape test, and \<^verbatim>\<open>__call__\<close>: one pass per row, then one along y.\<close>

definition Makima2D_init :: "real list \<Rightarrow> real list \<Rightarrow> real list list \<Rightarrow> error + unit" where
  "Makima2D_init x y zs =
     (if length zs = length y \<and> list_all (\<lambda>row. length row = length x) zs then Inr ()
      else Inl (ValueError ''Z shape''))"

fun interpolate_rows ::
  "(real list \<Rightarrow> real list \<Rightarrow> error + (real \<Rightarrow> real)) \<Rightarrow>
   real list \<Rightarrow> real list list \<Rightarrow> real \<Rightarrow> error + real list" where
  "interpolate_rows Akima x [] xq = Inr []"
| "interpolate_rows Akima x (row # rows) xq =
     ebind (akima_with_extrapolation Akima x row xq) (\<lambda>v.
     ebind (interpolate_rows Akima x rows xq) (\<lambda>vs. Inr (v # vs)))"

definition Makima2D_call ::
  "(real list \<Rightarrow> real list \<Rightarrow> error + (real \<Rightarrow> real)) \<Rightarrow>
   real list \<Rightarrow> real list \<Rightarrow> real list list \<Rightarrow> real \<Rightarrow> real \<Rightarrow> error + real" where
  "Makima2D_call Akima x y zs xq yq =
     ebind (interpolate_rows Akima x zs xq) (\<lambda>intermediate.
       akima_with_extrapolation Akima y intermediate yq)"

subsection \<open>gear.py: the gear and its construction\<close>

text \<open>
  An attribute that the constructor does not set (\<^verbatim>\<open>onShaft\<close>, \<^verbatim>\<open>abs_loc\<close>,
  \<^verbatim>\<open>d_av\<close>, \<^verbatim>\<open>gamma\<close> and the outputs of the analyses) is an option: \<open>None\<close>
  until something assigns it, and reading it then raises AttributeError. Of the
  analysis outputs, the record has those that \<^verbatim>\<open>calculateBendingSF\<close> and
  \<^verbatim>\<open>calculateSigmaMaxPitting\<close> read or write.
\<close>

record Component =
  name :: string
  material :: "Material option"
  axis :: vec3
  loc :: vec3
  EFs :: "ref list"
  ETs :: "ref list"
  omega :: vec3

record Gear = Component +
  m_n :: real
  z :: real
  psi :: real
  phi_n :: real
  Q_v :: real
  FW :: real
  p_n :: real
  p_t :: real
  p_x :: real
  m_t :: real
  d :: real
  phi_t :: real
  z_p :: int
  phi_b :: real
  h_a :: real
  h_f :: real
  h :: real
  d_a :: real
  d_f :: real
  meshes :: "ref list"
  onShaft :: "ref option"
  abs_loc :: "vec3 option"
  d_av :: "real option"
  gamma :: "real option"
  K_0 :: "real option"
  K_v :: "real option"
  K_H :: "real option"
  K_S :: "real option"
  sigma_max_fatigue :: "real option"
  sigma_FP :: "real option"
  Y_N :: "real option"
  Y_theta :: "real option"
  Y_Z :: "real option"
  bendingSF :: "npfloat option"
  Z_E :: "real option"
  m_N :: "real option"
  Z_I :: "real option"
  sigma_max_pitting :: "npfloat option"

text \<open>
  \<^verbatim>\<open>Gear.__init__\<close>. The helix and pressure angles arrive in degrees. The divisions
  are of Python floats: the first by \<^verbatim>\<open>cos(self.psi)\<close>, the second, taken only when
  the argument \<^verbatim>\<open>psi\<close> is not 0, by \<^verbatim>\<open>tan(self.psi)\<close>.
\<close>

definition Gear_init ::
  "string \<Rightarrow> vec3 \<Rightarrow> vec3 \<Rightarrow> real \<Rightarrow> real \<Rightarrow> real \<Rightarrow> real \<Rightarrow> real \<Rightarrow> real \<Rightarrow>
   Material option \<Rightarrow> error + Gear" where
  "Gear_init name0 axis0 loc0 m_n0 z0 psi0 phi_n0 Q_v0 FW0 material0 =
     (let psi1 = psi0 * pi / 180;
          phi_n1 = phi_n0 * pi / 180;
          p_n1 = m_n0 * pi
      in ebind (py_div p_n1 (cos psi1)) (\<lambda>p_t1.
         ebind (if psi0 \<noteq> 0 then py_div p_t1 (tan psi1) else Inr 0) (\<lambda>p_x1.
         ebind (py_div m_n0 (cos psi1)) (\<lambda>m_t1.
         ebind (py_div (tan phi_n1) (cos psi1)) (\<lambda>tq.
         ebind (py_div z0 (cos psi1 ^ 3)) (\<lambda>zq.
           let d1 = m_t1 * z0;
               h_a1 = m_n0;
               h_f1 = 1.25 * m_n0
           in Inr \<lparr>name = name0, material = material0, axis = axis0, loc = loc0,
                 EFs = [], ETs = [], omega = zeros3,
                 m_n = m_n0, z = z0, psi = psi1, phi_n = phi_n1, Q_v = Q_v0, FW = FW0,
                 p_n = p_n1, p_t = p_t1, p_x = p_x1, m_t = m_t1, d = d1,
                 phi_t = arctan tq, z_p = \<lceil>zq\<rceil>,
                 phi_b = arctan (tan psi1 * cos phi_n1),
                 h_a = h_a1, h_f = h_f1, h = h_a1 + h_f1,
                 d_a = d1 + 2 * h_a1, d_f = d1 - 2 * h_f1,
                 meshes = [], onShaft = None, abs_loc = None, d_av = None, gamma = None,
                 K_0 = None, K_v = None, K_H = None, K_S = None,
                 sigma_max_fatigue = None, sigma_FP = None, Y_N = None,
                 Y_theta = None, Y_Z = None, bendingSF = None,
                 Z_E = None, m_N = None, Z_I = None, sigma_max_pitting = None\<rparr>))))))"

subsection \<open>The mesh, the shaft and the store of objects\<close>

text \<open>
  Modelled from the spec: the class \<^verbatim>\<open>Mesh\<close> (not among the sources) pairs a driving
  and a driven gear, holds the four Force objects \<^verbatim>\<open>F_t\<close>, \<^verbatim>\<open>F_r\<close>, \<^verbatim>\<open>F_a\<close>,
  \<^verbatim>\<open>F\<close> that gear.py assigns to, one or two radiality vectors, its location, its
  \<^verbatim>\<open>type\<close> and the gear ratio \<^verbatim>\<open>m_G\<close>.
\<close>

record Mesh =
  mesh_name :: string
  drivingGear :: ref
  drivenGear :: ref
  F_t :: ref
  F_r :: ref
  F_a :: ref
  F :: ref
  radiality :: "vec3 list"
  mesh_loc :: vec3
  mesh_type :: string
  m_G :: real

text \<open>
  The store: one map from addresses to objects per class, and for the two classes that
  gear.py instantiates the next free address. Modelled from the spec: the owner of a
  gear (\<^verbatim>\<open>onShaft\<close>) is a component with the dedup-append \<^verbatim>\<open>updateEFs\<close> and
  \<^verbatim>\<open>updateETs\<close> of component.py and an \<^verbatim>\<open>axis\<close>.
\<close>

record World =
  forces :: "ref \<Rightarrow> Force"
  next_force :: ref
  torques :: "ref \<Rightarrow> Torque"
  next_torque :: ref
  gears :: "ref \<Rightarrow> Gear"
  mesh_store :: "ref \<Rightarrow> Mesh"
  shafts :: "ref \<Rightarrow> Component"

definition new_Force :: "World \<Rightarrow> vec3 \<Rightarrow> vec3 \<Rightarrow> ref \<times> World" where
  "new_Force w v l =
     (next_force w,
      w\<lparr>forces := (forces w)(next_force w := \<lparr>force = v, f_loc = l\<rparr>),
        next_force := Suc (next_force w)\<rparr>)"

definition new_Torque :: "World \<Rightarrow> vec3 \<Rightarrow> vec3 \<Rightarrow> ref \<times> World" where
  "new_Torque w v l =
     (next_torque w,
      w\<lparr>torques := (torques w)(next_torque w := \<lparr>torque = v, t_loc = l\<rparr>),
        next_torque := Suc (next_torque w)\<rparr>)"

text \<open>\<^verbatim>\<open>obj.force = v\<close> on the Force object at an address.\<close>

definition set_force :: "World \<Rightarrow> ref \<Rightarrow> vec3 \<Rightarrow> World" where
  "set_force w r v = w\<lparr>forces := (forces w)(r := (forces w r)\<lparr>force := v\<rparr>)\<rparr>"

definition gear_updateEFs :: "World \<Rightarrow> ref \<Rightarrow> ref list \<Rightarrow> World" where
  "gear_updateEFs w g new =
     w\<lparr>gears := (gears w)(g := (gears w g)\<lparr>EFs := updateEFs (EFs (gears w g)) new\<rparr>)\<rparr>"

definition gear_updateETs :: "World \<Rightarrow> ref \<Rightarrow> ref list \<Rightarrow> World" where
  "gear_updateETs w g new =
     w\<lparr>gears := (gears w)(g := (gears w g)\<lparr>ETs := updateETs (ETs (gears w g)) new\<rparr>)\<rparr>"

definition shaft_updateEFs :: "World \<Rightarrow> ref \<Rightarrow> ref list \<Rightarrow> World" where
  "shaft_updateEFs w s new =
     w\<lparr>shafts := (shafts w)(s := (shafts w s)\<lparr>EFs := updateEFs (EFs (shafts w s)) new\<rparr>)\<rparr>"

definition shaft_updateETs :: "World \<Rightarrow> ref \<Rightarrow> ref list \<Rightarrow> World" where
  "shaft_updateETs w s new =
     w\<lparr>shafts := (shafts w)(s := (shafts w s)\<lparr>ETs := updateETs (ETs (shafts w s)) new\<rparr>)\<rparr>"

subsection \<open>gear.py: the equilibrium solver\<close>

text \<open>
  Modelled from the spec: \<^verbatim>\<open>Force.moment\<close> (the package's Force class is not among
  the sources; gear.py quotes the formula in a comment):
  \<^verbatim>\<open>np.cross(EF.force, (EF.loc - location) * 1e-3) * np.abs(axis)\<close>.
\<close>

definition moment :: "Force \<Rightarrow> vec3 \<Rightarrow> vec3 \<Rightarrow> vec3" where
  "moment EF location ax =
     vmul (cross (force EF) (vscale (1 / 1000) (vsub (f_loc EF) location))) (vabs ax)"

fun sum_torques :: "(ref \<Rightarrow> Torque) \<Rightarrow> vec3 \<Rightarrow> ref list \<Rightarrow> vec3" where
  "sum_torques ts eq [] = eq"
| "sum_torques ts eq (ET # rest) = sum_torques ts (vadd eq (torque (ts ET))) rest"

fun add_moments :: "(ref \<Rightarrow> Force) \<Rightarrow> vec3 \<Rightarrow> vec3 \<Rightarrow> vec3 \<Rightarrow> ref list \<Rightarrow> vec3" where
  "add_moments fs location ax eq [] = eq"
| "add_moments fs location ax eq (EF # rest) =
     add_moments fs location ax (vadd eq (moment (fs EF) location ax)) rest"

fun sub_moments :: "(ref \<Rightarrow> Force) \<Rightarrow> vec3 \<Rightarrow> vec3 \<Rightarrow> vec3 \<Rightarrow> ref list \<Rightarrow> vec3" where
  "sub_moments fs location ax ET [] = ET"
| "sub_moments fs location ax ET (EF # rest) =
     sub_moments fs location ax (vsub ET (moment (fs EF) location ax)) rest"

text \<open>
  \<^verbatim>\<open>Gear.checkTorqueEquilibrium\<close>. \<^verbatim>\<open>self.abs_loc\<close> is read in the body of the loop
  over the external forces, so only when there is one.
\<close>

definition checkTorqueEquilibrium :: "World \<Rightarrow> Gear \<Rightarrow> error + bool" where
  "checkTorqueEquilibrium w self =
     (if EFs self = [] \<and> ETs self = [] then Inr False
      else
        let eq = sum_torques (torques w) zeros3 (ETs self) in
        if EFs self = [] then Inr (all_le (vabs eq) (1 / 1000))
        else
          (case abs_loc self of
             None \<Rightarrow> Inl (AttributeError ''abs_loc'')
           | Some al \<Rightarrow>
               Inr (all_le (vabs (add_moments (forces w) al (axis self) eq (EFs self)))
                      (1 / 1000))))"

text \<open>
  The loop of \<^verbatim>\<open>solve\<close> over the meshes: a mesh whose resultant is the zero vector
  counts as an unknown force; for any other mesh a new Force object, the resultant with
  the sign of the gear's side, goes through \<^verbatim>\<open>self.updateEFs\<close>.
\<close>

fun classify :: "ref \<Rightarrow> ref list \<Rightarrow> World \<times> nat \<times> ref option \<Rightarrow> World \<times> nat \<times> ref option" where
  "classify g [] st = st"
| "classify g (mesh # rest) (w, unknown_Fs, unknown_mesh) =
     (let M = mesh_store w mesh; MF = forces w (F M) in
      if force MF = zeros3 then classify g rest (w, unknown_Fs + 1, Some mesh)
      else
        let sign = (if name (gears w g) = name (gears w (drivingGear M)) then - 1 else 1);
            (r, w1) = new_Force w (vscale sign (force MF)) (f_loc MF)
        in classify g rest (gear_updateEFs w1 g [r], unknown_Fs, unknown_mesh))"

text \<open>\<^verbatim>\<open>calculateTorque\<close>.\<close>

definition calculateTorque :: "World \<Rightarrow> ref \<Rightarrow> (error + unit) \<times> World" where
  "calculateTorque w g =
     (let self = gears w g in
      case abs_loc self of
        None \<Rightarrow> (Inl (AttributeError ''abs_loc''), w)
      | Some al \<Rightarrow>
          let (ET, w1) =
                new_Torque w (sub_moments (forces w) al (axis self) zeros3 (EFs self)) al
          in (Inr (), gear_updateETs w1 g [ET]))"

text \<open>
  \<^verbatim>\<open>calculateForces\<close>. \<^verbatim>\<open>ET = self.ETs[0].torque\<close> is the array of the first torque
  object, and \<^verbatim>\<open>ET -= ...\<close> changes it in place. The last steps, common to both
  branches: register \<^verbatim>\<open>Force(F_t + F_r + F_a, mesh.loc)\<close> with the gear, then assign
  to \<^verbatim>\<open>mesh.F.force\<close> the sum of the three forces as the mesh holds them.
\<close>

definition register_resultant ::
  "World \<Rightarrow> ref \<Rightarrow> Mesh \<Rightarrow> vec3 \<Rightarrow> vec3 \<Rightarrow> vec3 \<Rightarrow> World" where
  "register_resultant w g M Ft Fr Fa =
     (let (r, w1) = new_Force w (vadd (vadd Ft Fr) Fa) (mesh_loc M);
          w2 = gear_updateEFs w1 g [r]
      in set_force w2 (F M)
           (vadd (vadd (force (forces w2 (F_t M))) (force (forces w2 (F_r M))))
              (force (forces w2 (F_a M)))))"

definition subtract_moments :: "World \<Rightarrow> Gear \<Rightarrow> vec3 \<Rightarrow> error + vec3" where
  "subtract_moments w self ET =
     (if EFs self = [] then Inr ET
      else
        (case abs_loc self of
           None \<Rightarrow> Inl (AttributeError ''abs_loc'')
         | Some al \<Rightarrow> Inr (sub_moments (forces w) al (axis self) ET (EFs self))))"

definition forces_single ::
  "World \<Rightarrow> ref \<Rightarrow> Mesh \<Rightarrow> vec3 \<Rightarrow> real \<Rightarrow> vec3 \<Rightarrow> (error + unit) \<times> World" where
  "forces_single w g M ET sign rad =
     (let self = gears w g in
      if d self = 0 then (Inl ZeroDivisionError, w)
      else
        let Ft = vscale 1000 (cross ET (vscale (2 / d self) rad));
            w2 = set_force w (F_t M) (vscale sign Ft);
            magF_t = sqrt (vsum (vmul Ft Ft))
        in
          if cos (psi self) = 0 then (Inl ZeroDivisionError, w2)
          else
            let Fr = vscale (sign * magF_t * tan (phi_n self) / cos (psi self)) rad;
                w3 = set_force w2 (F_r M) (vscale sign Fr)
            in
              (case onShaft self of
                 None \<Rightarrow> (Inl (AttributeError ''onShaft''), w3)
               | Some s \<Rightarrow>
                   let Fa = vscale (sgn (vsum (axis (shafts w3 s))) * sgn (psi self))
                              (vabs (cross rad (vscale (tan \<bar>psi self\<bar>) Ft)));
                       w4 = set_force w3 (F_a M) (vneg Fa)
                   in (Inr (), register_resultant w4 g M Ft Fr Fa)))"

definition forces_dual ::
  "World \<Rightarrow> ref \<Rightarrow> Mesh \<Rightarrow> vec3 \<Rightarrow> real \<Rightarrow> (error + unit) \<times> World" where
  "forces_dual w g M ET sign =
     (let self = gears w g in
      case py_get (radiality M) (if sign = 1 then 1 else 0) of
        Inl e \<Rightarrow> (Inl e, w)
      | Inr rad \<Rightarrow>
          (case d_av self of
             None \<Rightarrow> (Inl (AttributeError ''d_av''), w)
           | Some dav \<Rightarrow>
               if dav = 0 then (Inl ZeroDivisionError, w)
               else
                 let Ft = vscale 1000 (cross ET (vscale (2 / dav) rad));
                     w2 = set_force w (F_t M) (vscale sign Ft);
                     magF_t = sqrt (vsum (vmul Ft Ft))
                 in
                   (case gamma self of
                      None \<Rightarrow> (Inl (AttributeError ''gamma''), w2)
                    | Some gam \<Rightarrow>
                        let Fr = vscale (sign * magF_t * tan (phi_n self) * cos gam) rad;
                            w3 = set_force w2 (F_r M) (vscale sign Fr);
                            Fa = vscale sign
                                   (cross rad (vscale (tan \<bar>phi_n self\<bar> * sin gam) Ft));
                            w4 = set_force w3 (F_a M) (vneg Fa)
                        in (Inr (), register_resultant w4 g M Ft Fr Fa))))"

definition calculateForces :: "World \<Rightarrow> ref \<Rightarrow> ref \<Rightarrow> (error + unit) \<times> World" where
  "calculateForces w g mesh =
     (let self = gears w g; M = mesh_store w mesh in
      case ETs self of
        [] \<Rightarrow> (Inl IndexError, w)
      | ET0 # _ \<Rightarrow>
          (case subtract_moments w self (torque (torques w ET0)) of
             Inl e \<Rightarrow> (Inl e, w)
           | Inr ET \<Rightarrow>
               let w1 = w\<lparr>torques := (torques w)(ET0 := (torques w ET0)\<lparr>torque := ET\<rparr>)\<rparr>;
                   sign = (if name self = name (gears w (drivingGear M)) then - 1 else 1)
               in
                 if length (radiality M) = 1
                 then forces_single w1 g M ET sign (radiality M ! 0)
                 else forces_dual w1 g M ET sign))"

text \<open>
  \<^verbatim>\<open>solve\<close>. It returns nothing; the status is the message it prints before it
  returns. The value of the last \<^verbatim>\<open>checkTorqueEquilibrium\<close> is dropped, but it can
  raise.
\<close>

datatype status =
    Unconfigured
  | NothingToSolve
  | NotSolvable
  | SolvedTorque
  | SolvedForces
  | NoUnknown

definition recheck :: "status \<Rightarrow> World \<Rightarrow> ref \<Rightarrow> (error + status) \<times> World" where
  "recheck st w g =
     (case checkTorqueEquilibrium w (gears w g) of
        Inl e \<Rightarrow> (Inl e, w)
      | Inr b \<Rightarrow> (Inr st, w))"

definition solve :: "World \<Rightarrow> ref \<Rightarrow> (error + status) \<times> World" where
  "solve w g =
     (let self = gears w g in
      if meshes self = [] then (Inr Unconfigured, w)
      else
        (case checkTorqueEquilibrium w self of
           Inl e \<Rightarrow> (Inl e, w)
         | Inr True \<Rightarrow> (Inr NothingToSolve, w)
         | Inr False \<Rightarrow>
             let unknown_Ts = (if ETs self = [] then 1 else 0 :: nat);
                 (w1, unknown_Fs, unknown_mesh) = classify g (meshes self) (w, 0, None)
             in
               if unknown_Fs + unknown_Ts > 1 then (Inr NotSolvable, w1)
               else if unknown_Ts = 1 then
                 (case calculateTorque w1 g of
                    (Inl e, w2) \<Rightarrow> (Inl e, w2)
                  | (Inr u, w2) \<Rightarrow>
                      (case onShaft (gears w2 g) of
                         None \<Rightarrow> (Inl (AttributeError ''onShaft''), w2)
                       | Some s \<Rightarrow>
                           recheck SolvedTorque (shaft_updateETs w2 s (ETs (gears w2 g))) g))
               else if unknown_Fs = 1 then
                 (case unknown_mesh of
                    None \<Rightarrow> (Inl (AttributeError ''name''), w1)
                  | Some mesh \<Rightarrow>
                      (case calculateForces w1 g mesh of
                         (Inl e, w2) \<Rightarrow> (Inl e, w2)
                       | (Inr u, w2) \<Rightarrow>
                           (case onShaft (gears w2 g) of
                              None \<Rightarrow> (Inl (AttributeError ''onShaft''), w2)
                            | Some s \<Rightarrow>
                                recheck SolvedForces
                                  (shaft_updateEFs w2 s (EFs (gears w2 g))) g)))
               else recheck NoUnknown w1 g))"

subsection \<open>gear.py: the bending safety factor\<close>

definition rel_ref :: "real list" where
  "rel_ref = [0.9999, 0.999, 0.99, 0.9, 0.5]"

definition YZ_ref :: "real list" where
  "YZ_ref = [1.5, 1.25, 1, 0.85, 0.7]"

text \<open>\<^verbatim>\<open>np.where(xs == v)\<close>: the indices of the entries equal to \<open>v\<close>.\<close>

definition np_where_eq :: "real list \<Rightarrow> real \<Rightarrow> nat list" where
  "np_where_eq xs v = filter (\<lambda>i. xs ! i = v) [0 ..< length xs]"

text \<open>
  \<^verbatim>\<open>np.interp(xv, xp, fp)\<close>, which is numpy's and not the repository's: numpy does not
  test that \<open>xp\<close> increases. It first compares \<open>xv\<close> with the last sample (above it:
  the last value), then with the first one (below it: the first value), and only then
  looks for the segment of \<open>xv\<close>, here by the linear scan it uses on short arrays.
\<close>

definition np_interp :: "real \<Rightarrow> real list \<Rightarrow> real list \<Rightarrow> error + real" where
  "np_interp xv xp fp =
     (if xp = [] \<or> length fp \<noteq> length xp then Inl (ValueError ''interp'')
      else if xv > last xp then Inr (last fp)
      else if xv < hd xp then Inr (hd fp)
      else
        let j = length (takeWhile (\<lambda>a. a \<le> xv) (tl xp)) in
        if j = length xp - 1 then Inr (fp ! j)
        else if xp ! j = xv then Inr (fp ! j)
        else Inr ((fp ! (j + 1) - fp ! j) / (xp ! (j + 1) - xp ! j) * (xv - xp ! j) + fp ! j))"

text \<open>
  \<^verbatim>\<open>v[0]\<close> on the numpy scalar that \<^verbatim>\<open>np.interp\<close> returns for a scalar query raises
  IndexError ("invalid index to scalar variable").
\<close>

definition scalar_index0 :: "real \<Rightarrow> error + real" where
  "scalar_index0 v = Inl IndexError"

text \<open>The reliability factor, as the two branches of \<^verbatim>\<open>calculateBendingSF\<close> compute it.\<close>

definition reliability_factor :: "real \<Rightarrow> error + real" where
  "reliability_factor rel =
     (if rel \<in> set rel_ref
      then py_get (map (\<lambda>i. YZ_ref ! i) (np_where_eq rel_ref rel)) 0
      else ebind (np_interp rel rel_ref YZ_ref) scalar_index0)"

text \<open>
  \<^verbatim>\<open>calculateBendingSF\<close>. The last line reads \<^verbatim>\<open>self.sigma_max_fatigue\<close>, which
  \<^verbatim>\<open>calculateSigmaMaxFatigue\<close> sets (a numpy float), then \<^verbatim>\<open>self.Y_theta\<close>.
\<close>

definition calculateBendingSF ::
  "Gear \<Rightarrow> real \<Rightarrow> real \<Rightarrow> real \<Rightarrow> real \<Rightarrow> real \<Rightarrow> real \<Rightarrow> (error + unit) \<times> Gear" where
  "calculateBendingSF self sigma_FP0 b_YN e_YN N temp rel =
     (let s1 = self\<lparr>sigma_FP := Some sigma_FP0\<rparr> in
      case py_pow N e_YN of
        Inl e \<Rightarrow> (Inl e, s1)
      | Inr pw \<Rightarrow>
          let s2 = s1\<lparr>Y_N := Some (b_YN * pw)\<rparr>;
              s3 = (if temp \<le> 120 then s2\<lparr>Y_theta := Some 1\<rparr> else s2)
          in
            (case reliability_factor rel of
               Inl e \<Rightarrow> (Inl e, s3)
             | Inr yz \<Rightarrow>
                 let s4 = s3\<lparr>Y_Z := Some yz\<rparr> in
                 (case sigma_max_fatigue s4 of
                    None \<Rightarrow> (Inl (AttributeError ''sigma_max_fatigue''), s4)
                  | Some smf \<Rightarrow>
                      (case Y_theta s4 of
                         None \<Rightarrow> (Inl (AttributeError ''Y_theta''), s4)
                       | Some yt \<Rightarrow>
                           (Inr (),
                            s4\<lparr>bendingSF :=
                                 Some (np_div (np_div (np_div
                                   (Finite (sigma_FP0 * (b_YN * pw))) smf) yt) yz)\<rparr>)))))"

subsection \<open>gear.py: the maximum contact stress\<close>

definition ZE_ref :: "real list list" where
  "ZE_ref =
     [[191, 181, 179, 174, 162, 158],
      [181, 174, 172, 168, 158, 154],
      [179, 172, 170, 166, 156, 152],
      [174, 168, 166, 163, 154, 149],
      [162, 158, 156, 154, 145, 141],
      [158, 154, 152, 149, 141, 137]]"

definition material_index :: "string \<Rightarrow> nat option" where
  "material_index nm =
     (if nm = ''Steel'' then Some 1
      else if nm = ''Malleable iron'' then Some 2
      else if nm = ''Nodular iron'' then Some 3
      else if nm = ''Cast iron'' then Some 4
      else if nm = ''Aluminum bronze'' then Some 5
      else if nm = ''Tin bronze'' then Some 6
      else None)"

text \<open>
  The elastic coefficient: the index of the driving gear's material, then of the driven
  gear's; a gear without material has no \<^verbatim>\<open>name\<close> to read.
\<close>

definition elastic_coefficient :: "Gear \<Rightarrow> Gear \<Rightarrow> error + real" where
  "elastic_coefficient pG gG =
     (case material pG of
        None \<Rightarrow> Inl (AttributeError ''name'')
      | Some pm \<Rightarrow>
          (case material_index (mat_name pm) of
             None \<Rightarrow> Inl (ValueError ''Wrong input for pinion material.'')
           | Some i \<Rightarrow>
               (case material gG of
                  None \<Rightarrow> Inl (AttributeError ''name'')
                | Some gm \<Rightarrow>
                    (case material_index (mat_name gm) of
                       None \<Rightarrow> Inl (ValueError ''Wrong input for gear material.'')
                     | Some j \<Rightarrow> Inr (ZE_ref ! (i - 1) ! (j - 1))))))"

text \<open>The length \<^verbatim>\<open>Z\<close> of the line of action, from the two gears of the mesh.\<close>

definition line_of_action :: "Gear \<Rightarrow> Gear \<Rightarrow> Gear \<Rightarrow> real" where
  "line_of_action self pG gG =
     (let f1_ZA = sqrt ((d pG / 2) ^ 2 + h_a pG ^ 2);
          f2_Z = (d pG + d gG) * sin (phi_t self) / 2;
          Z_A = min f1_ZA f2_Z;
          f1_ZB = sqrt ((d gG / 2) ^ 2 + h_a gG ^ 2);
          Z_B = min f1_ZB f2_Z
      in Z_A + Z_B - f2_Z)"

text \<open>
  The body of \<^verbatim>\<open>calculateSigmaMaxPitting\<close> on the gear \<open>self\<close>, given the two gears
  of the mesh and the vector \<^verbatim>\<open>mesh.F_t.force\<close>. The factors \<^verbatim>\<open>K_0\<close>, \<^verbatim>\<open>K_v\<close>,
  \<^verbatim>\<open>K_S\<close>, \<^verbatim>\<open>K_H\<close> are attributes that the bending analysis sets; the last line is
  numpy arithmetic.
\<close>

definition sigma_max_pitting_of ::
  "Gear \<Rightarrow> Gear \<Rightarrow> Gear \<Rightarrow> Mesh \<Rightarrow> vec3 \<Rightarrow> real \<Rightarrow> (error + unit) \<times> Gear" where
  "sigma_max_pitting_of self pG gG M Ft Z_R =
     (case elastic_coefficient pG gG of
        Inl e \<Rightarrow> (Inl e, self)
      | Inr ze \<Rightarrow>
          let s1 = self\<lparr>Z_E := Some ze\<rparr> in
          (case py_div (p_n self * cos (phi_n self) / 0.95) (line_of_action self pG gG) of
             Inl e \<Rightarrow> (Inl e, s1)
           | Inr mN \<Rightarrow>
               let s2 = s1\<lparr>m_N := Some mN\<rparr>;
                   num = cos (phi_t self) * sin (phi_t self) * m_G M / 2
               in
                 (case (if mesh_type M = ''External''
                        then ebind (py_div num mN) (\<lambda>q. py_div q (m_G M + 1))
                        else if mesh_type M = ''Internal''
                        then ebind (py_div num mN) (\<lambda>q. py_div q (m_G M - 1))
                        else Inl (ValueError ''Gear mesh type invalid.'')) of
                    Inl e \<Rightarrow> (Inl e, s2)
                  | Inr zi \<Rightarrow>
                      let s3 = s2\<lparr>Z_I := Some zi\<rparr> in
                      (case K_0 s3 of None \<Rightarrow> (Inl (AttributeError ''K_0''), s3) | Some k0 \<Rightarrow>
                      (case K_v s3 of None \<Rightarrow> (Inl (AttributeError ''K_v''), s3) | Some kv \<Rightarrow>
                      (case K_S s3 of None \<Rightarrow> (Inl (AttributeError ''K_S''), s3) | Some ks \<Rightarrow>
                      (case K_H s3 of None \<Rightarrow> (Inl (AttributeError ''K_H''), s3) | Some kh \<Rightarrow>
                        let q = np_div (np_div (np_div
                                  (Finite (vsum (vabs Ft) * k0 * kv * ks * kh * Z_R))
                                  (FW s3)) (d s3)) zi;
                            sigma = (case q of
                                       NonFinite \<Rightarrow> NonFinite
                                     | Finite qv \<Rightarrow>
                                         if qv < 0 then NonFinite
                                         else Finite (ze * sqrt qv))
                        in (Inr (), s3\<lparr>sigma_max_pitting := Some sigma\<rparr>))))))))"

definition calculateSigmaMaxPitting ::
  "World \<Rightarrow> ref \<Rightarrow> ref \<Rightarrow> real \<Rightarrow> (error + unit) \<times> World" where
  "calculateSigmaMaxPitting w g mesh Z_R =
     (let M = mesh_store w mesh;
          (res, self1) =
            sigma_max_pitting_of (gears w g) (gears w (drivingGear M))
              (gears w (drivenGear M)) M (force (forces w (F_t M))) Z_R
      in (res, w\<lparr>gears := (gears w)(g := self1)\<rparr>))"

subsection \<open>A small gear train, for the examples\<close>

text \<open>
  A spur gear as \<^verbatim>\<open>Gear.__init__\<close> leaves it for module 2, helix angle 0 and a
  pressure angle of 30 degrees, then mounted on shaft 0 at the origin. In the world
  below, gear 0 (\<open>G0\<close>, 20 teeth, carrying torque 0) drives gear 1 (\<open>G1\<close>, 60 teeth)
  through the external mesh 0, gear 1 drives further through the internal mesh 1, every
  other gear has no mesh, and every other mesh has a type that gear.py does not know.
  All forces of the meshes are still zero.
\<close>

definition steel :: Material where
  "steel = \<lparr>mat_name = ''Steel'', HB = 200\<rparr>"

definition spur :: "string \<Rightarrow> real \<Rightarrow> ref list \<Rightarrow> ref list \<Rightarrow> Gear" where
  "spur nm teeth ets ms =
     \<lparr>name = nm, material = Some steel, axis = (0, 0, 1), loc = (0, 0, 0),
      EFs = [], ETs = ets, omega = zeros3,
      m_n = 2, z = teeth, psi = 0, phi_n = pi / 6, Q_v = 7, FW = 30,
      p_n = 2 * pi, p_t = 2 * pi, p_x = 0, m_t = 2, d = 2 * teeth,
      phi_t = pi / 6, z_p = \<lceil>teeth\<rceil>, phi_b = 0,
      h_a = 2, h_f = 2.5, h = 4.5, d_a = 2 * teeth + 4, d_f = 2 * teeth - 5,
      meshes = ms, onShaft = Some 0, abs_loc = Some (0, 0, 0), d_av = None, gamma = None,
      K_0 = None, K_v = None, K_H = None, K_S = None,
      sigma_max_fatigue = None, sigma_FP = None, Y_N = None,
      Y_theta = None, Y_Z = None, bendingSF = None,
      Z_E = None, m_N = None, Z_I = None, sigma_max_pitting = None\<rparr>"

definition ex_mesh :: "string \<Rightarrow> ref \<Rightarrow> ref \<Rightarrow> ref \<Rightarrow> string \<Rightarrow> Mesh" where
  "ex_mesh nm driving driven base ty =
     \<lparr>mesh_name = nm, drivingGear = driving, drivenGear = driven,
      F_t = base, F_r = base + 1, F_a = base + 2, F = base + 3,
      radiality = [(1, 0, 0)], mesh_loc = (20, 0, 0), mesh_type = ty, m_G = 3\<rparr>"

definition ex_world :: World where
  "ex_world =
     \<lparr>forces = (\<lambda>r. \<lparr>force = zeros3, f_loc = (20, 0, 0)\<rparr>),
      next_force = 8,
      torques = (\<lambda>r. \<lparr>torque = (0, 0, 1), t_loc = (0, 0, 0)\<rparr>),
      next_torque = 1,
      gears = (\<lambda>r. spur ''G2'' 20 [] [])
                (0 := spur ''G0'' 20 [0] [0], 1 := spur ''G1'' 60 [] [0, 1]),
      mesh_store = (\<lambda>r. ex_mesh ''M2'' 1 2 4 ''Bevel'')
                (0 := ex_mesh ''M0'' 0 1 0 ''External'',
                 1 := ex_mesh ''M1'' 1 2 4 ''Internal''),
      shafts = (\<lambda>r. \<lparr>name = ''S'', material = None, axis = (0, 0, 1), loc = (0, 0, 0),
                     EFs = [], ETs = [], omega = zeros3\<rparr>)\<rparr>"

text \<open>The same world once mesh 0 carries a resultant of 50 N along y.\<close>

definition ex_world_resolved :: World where
  "ex_world_resolved = set_force ex_world 3 (0, 50, 0)"

text \<open>
  What the solver's frame properties speak about: a mesh is unresolved when its
  resultant is the zero vector; a world is allocated for a gear when the resultants of
  the gear's meshes and the gear's external forces lie below the next free address.
\<close>

definition unresolved :: "World \<Rightarrow> ref \<Rightarrow> bool" where
  "unresolved w m = (force (forces w (F (mesh_store w m))) = zeros3)"

definition allocated :: "World \<Rightarrow> ref \<Rightarrow> ref list \<Rightarrow> bool" where
  "allocated w g ms =
     (list_all (\<lambda>m. F (mesh_store w m) < next_force w) ms \<and>
      list_all (\<lambda>r. r < next_force w) (EFs (gears w g)))"

definition mesh_allocated :: "World \<Rightarrow> ref \<Rightarrow> Mesh \<Rightarrow> bool" where
  "mesh_allocated w g M =
     (distinct [F_t M, F_r M, F_a M, F M] \<and>
      list_all (\<lambda>r. r < next_force w) [F_t M, F_r M, F_a M, F M] \<and>
      list_all (\<lambda>r. r < next_force w) (EFs (gears w g)))"

text \<open>The sign of the gear's side of a mesh: -1 for the driving gear, as compared by name.\<close>

definition mesh_sign :: "World \<Rightarrow> ref \<Rightarrow> Mesh \<Rightarrow> real" where
  "mesh_sign w g M = (if name (gears w g) = name (gears w (drivingGear M)) then - 1 else 1)"

definition unknowns :: "World \<Rightarrow> ref \<Rightarrow> nat" where
  "unknowns w g =
     (if ETs (gears w g) = [] then 1 else 0) +
     length (filter (unresolved w) (meshes (gears w g)))"

section \<open>Properties\<close>


subsection \<open>The dedup-append\<close>

lemma updateEFs_prefix: "prefix old (updateEFs old new)"
proof (induction new arbitrary: old)
  case Nil
  show ?case by simp
next
  case (Cons ef new)
  have "prefix old (if ef \<notin> set old then old @ [ef] else old)"
    by simp
  also have "prefix \<dots> (updateEFs (if ef \<notin> set old then old @ [ef] else old) new)"
    by (rule Cons.IH)
  finally show ?case by simp
qed

lemma updateEFs_count:
  "e \<in> set old \<Longrightarrow> count_list (updateEFs old new) e = count_list old e"
proof (induction new arbitrary: old)
  case Nil
  show ?case by simp
next
  case (Cons ef new)
  let ?mid = "if ef \<notin> set old then old @ [ef] else old"
  from Cons.prems have in_mid: "e \<in> set ?mid" by simp
  from Cons.prems have "count_list ?mid e = count_list old e" by auto
  with Cons.IH [OF in_mid] show ?case by simp
qed

lemma updateETs_eq: "updateETs old new = updateEFs old new"
  by (induction new arbitrary: old) simp_all

text \<open>
  C9. For every call of \<^verbatim>\<open>updateEFs\<close> or \<^verbatim>\<open>updateETs\<close> with any list, the
  resulting collection starts with the previous collection, element for element and in
  the same order (it never shrinks), and an element that was already present occurs in
  the result exactly as often as before: it is not appended a second time.
\<close>

theorem C9_update_append_only:
  "prefix old (updateEFs old new) \<and> prefix old (updateETs old new) \<and>
   (\<forall>e \<in> set old. count_list (updateEFs old new) e = count_list old e \<and>
                    count_list (updateETs old new) e = count_list old e)"
  by (simp add: updateETs_eq updateEFs_prefix updateEFs_count)

theorem C9_update_append_only_witness:
  "prefix [1, 2 :: nat] (updateEFs [1, 2] [2, 3, 3]) \<and>
   prefix [1, 2 :: nat] (updateETs [1, 2] [2, 3, 3]) \<and>
   updateEFs [1, 2 :: nat] [2, 3, 3] = [1, 2, 3] \<and>
   count_list (updateEFs [1, 2 :: nat] [2, 3, 3]) 2 = 1 \<and>
   count_list (updateETs [1, 2 :: nat] [2, 3, 3]) 2 = 1"
  using C9_update_append_only [of "[1, 2 :: nat]" "[2, 3, 3]"] by simp

subsection \<open>The force-equilibrium check\<close>

text \<open>
  C4. \<^verbatim>\<open>checkForceEquilibrium\<close> compares the summed components with the tolerance
  from above only: it reports an equilibrium exactly when every component of the sum is
  at most 1e-3, whatever its absolute value. A single external force of (-5, 0, 0) N
  is reported as an equilibrium.
\<close>

theorem C4_force_equilibrium_one_sided:
  "checkForceEquilibrium store refs =
     (case sum_forces store zeros3 refs of
        (a, b, c) \<Rightarrow> a \<le> 1 / 1000 \<and> b \<le> 1 / 1000 \<and> c \<le> 1 / 1000) \<and>
   checkForceEquilibrium (\<lambda>r. \<lparr>force = (- 5, 0, 0), f_loc = (0, 0, 0)\<rparr>) [0]"
  by (simp add: checkForceEquilibrium_def zeros3_def split: prod.splits)

subsection \<open>Linear extrapolation in each pass of the interpolator\<close>

lemma py_get_0: "xs \<noteq> [] \<Longrightarrow> py_get xs 0 = Inr (xs ! 0)"
  by (simp add: py_get_def)

lemma py_get_1: "2 \<le> length xs \<Longrightarrow> py_get xs 1 = Inr (xs ! 1)"
  by (simp add: py_get_def)

lemma py_get_last: "xs \<noteq> [] \<Longrightarrow> py_get xs (- 1) = Inr (last xs)"
proof -
  assume ne: "xs \<noteq> []"
  then have pos: "1 \<le> int (length xs)"
    by (cases xs) simp_all
  then have idx: "nat (int (length xs) + - 1) = length xs - 1"
    by simp
  have "py_get xs (- 1) = Inr (xs ! nat (int (length xs) + - 1))"
    unfolding py_get_def using pos by simp
  then show ?thesis
    unfolding idx by (simp add: last_conv_nth ne)
qed

lemma py_get_before_last:
  "2 \<le> length xs \<Longrightarrow> py_get xs (- 2) = Inr (xs ! (length xs - 2))"
proof -
  assume len: "2 \<le> length xs"
  then have pos: "2 \<le> int (length xs)"
    by simp
  then have idx: "nat (int (length xs) + - 2) = length xs - 2"
    by simp
  have "py_get xs (- 2) = Inr (xs ! nat (int (length xs) + - 2))"
    unfolding py_get_def using pos by simp
  then show ?thesis
    unfolding idx .
qed

lemma strictly_increasing_ends:
  assumes "sorted_wrt (<) (xs :: real list)" and "2 \<le> length xs"
  shows "xs ! 0 < xs ! 1" and "xs ! (length xs - 2) < last xs" and "xs ! 0 < last xs"
proof -
  from assms(2) have "xs \<noteq> []" by auto
  then have l: "last xs = xs ! (length xs - 1)" by (rule last_conv_nth)
  show "xs ! 0 < xs ! 1"
    using sorted_wrt_nth_less [OF assms(1), of 0 1] assms(2) by simp
  show "xs ! (length xs - 2) < last xs"
    unfolding l
    using sorted_wrt_nth_less [OF assms(1), of "length xs - 2" "length xs - 1"] assms(2)
    by simp
  show "xs ! 0 < last xs"
    unfolding l
    using sorted_wrt_nth_less [OF assms(1), of 0 "length xs - 1"] assms(2) by simp
qed

text \<open>
  C7. In a 1-D pass over samples \<open>x\<close> (strictly increasing, as the Akima constructor
  demands, at least two of them) with values \<open>y_vals\<close>, a query below the first sample
  evaluates to \<open>y_vals[0] + slope * (xq - x[0])\<close> with the secant slope of the first
  segment, a query above the last sample to \<open>y_vals[-1] + slope * (xq - x[-1])\<close> with
  the secant slope of the last segment, and only a query inside the samples' range is
  the Akima interpolant's value.
\<close>

theorem C7_extrapolation_is_linear:
  assumes "Akima x y_vals = Inr akima"
    and "sorted_wrt (<) x" and "2 \<le> length x" and "length y_vals = length x"
  shows "(xq < x ! 0 \<longrightarrow>
            akima_with_extrapolation Akima x y_vals xq =
              Inr (y_vals ! 0 + (y_vals ! 1 - y_vals ! 0) / (x ! 1 - x ! 0) * (xq - x ! 0))) \<and>
         (last x < xq \<longrightarrow>
            akima_with_extrapolation Akima x y_vals xq =
              Inr (last y_vals +
                   (last y_vals - y_vals ! (length y_vals - 2)) /
                   (last x - x ! (length x - 2)) * (xq - last x))) \<and>
         (x ! 0 \<le> xq \<and> xq \<le> last x \<longrightarrow>
            akima_with_extrapolation Akima x y_vals xq = Inr (akima xq))"
proof -
  from assms have ne: "x \<noteq> []" "y_vals \<noteq> []" and len: "2 \<le> length y_vals"
    by auto
  note ends = strictly_increasing_ends [OF assms(2) assms(3)]
  have left: "left_extrapolation x y_vals xq =
      Inr (y_vals ! 0 + (y_vals ! 1 - y_vals ! 0) / (x ! 1 - x ! 0) * (xq - x ! 0))"
    using ends(1)
    by (simp add: left_extrapolation_def ebind_def py_get_0 py_get_1 ne len assms(3))
  have right: "right_extrapolation x y_vals xq =
      Inr (last y_vals + (last y_vals - y_vals ! (length y_vals - 2)) /
             (last x - x ! (length x - 2)) * (xq - last x))"
    using ends(2)
    by (simp add: right_extrapolation_def ebind_def py_get_last py_get_before_last
        ne len assms(3))
  have unfold: "akima_with_extrapolation Akima x y_vals xq =
      ebind (if xq < x ! 0 then left_extrapolation x y_vals xq else Inr (akima xq))
        (\<lambda>result. if last x < xq then right_extrapolation x y_vals xq else Inr result)"
    by (simp add: akima_with_extrapolation_def ebind_def assms(1) py_get_0 py_get_last ne)
  show ?thesis
    using ends(3) by (simp add: unfold left right ebind_def)
qed

theorem C7_extrapolation_is_linear_witness:
  "akima_with_extrapolation (\<lambda>xs ys. Inr (\<lambda>q. 0)) [1, 2, 4] [10, 20, 50] 0 = Inr 0 \<and>
   akima_with_extrapolation (\<lambda>xs ys. Inr (\<lambda>q. 0)) [1, 2, 4] [10, 20, 50] 6 = Inr 80 \<and>
   akima_with_extrapolation (\<lambda>xs ys. Inr (\<lambda>q. 0)) [1, 2, 4] [10, 20, 50] 3 = Inr 0"
  using C7_extrapolation_is_linear [of "\<lambda>xs ys. Inr (\<lambda>q. 0)" "[1, 2, 4]" "[10, 20, 50]"
      "\<lambda>q. 0" 0]
    C7_extrapolation_is_linear [of "\<lambda>xs ys. Inr (\<lambda>q. 0)" "[1, 2, 4]" "[10, 20, 50]"
      "\<lambda>q. 0" 6]
    C7_extrapolation_is_linear [of "\<lambda>xs ys. Inr (\<lambda>q. 0)" "[1, 2, 4]" "[10, 20, 50]"
      "\<lambda>q. 0" 3]
  by simp

subsection \<open>The axial pitch\<close>

lemma Gear_init_spur:
  "\<exists>g. Gear_init name0 axis0 loc0 m_n0 z0 0 phi_n0 Q_v0 FW0 material0 = Inr g \<and> p_x g = 0"
  by (simp add: Gear_init_def py_div_def ebind_def Let_def)

lemma Gear_init_helical:
  assumes "psi0 \<noteq> 0"
    and "Gear_init name0 axis0 loc0 m_n0 z0 psi0 phi_n0 Q_v0 FW0 material0 = Inr g"
  shows "tan (psi g) \<noteq> 0 \<and> cos (psi g) \<noteq> 0 \<and> psi g = psi0 * pi / 180 \<and>
         p_x g = p_t g / tan (psi g)"
proof -
  have c: "cos (psi0 * pi / 180) \<noteq> 0"
    using assms(2) by (auto simp: Gear_init_def py_div_def ebind_def Let_def split: if_splits)
  have t: "tan (psi0 * pi / 180) \<noteq> 0"
    using assms c by (auto simp: Gear_init_def py_div_def ebind_def Let_def split: if_splits)
  from assms c t show ?thesis
    by (auto simp: Gear_init_def py_div_def ebind_def Let_def)
qed

text \<open>
  C8. Constructing a gear with helix angle 0 succeeds, whatever the other arguments,
  with axial pitch \<open>p_x = 0\<close>: the division by \<open>tan psi\<close> is not taken. For every
  nonzero helix angle, a gear that is constructed has \<open>p_x = p_t / tan psi\<close>, with
  \<open>psi\<close> the stored angle in radians and \<open>tan psi\<close> not zero.
\<close>

theorem C8_axial_pitch:
  "(\<exists>g. Gear_init name0 axis0 loc0 m_n0 z0 0 phi_n0 Q_v0 FW0 material0 = Inr g \<and> p_x g = 0) \<and>
   (\<forall>g. psi0 \<noteq> 0 \<and>
        Gear_init name0 axis0 loc0 m_n0 z0 psi0 phi_n0 Q_v0 FW0 material0 = Inr g \<longrightarrow>
        tan (psi g) \<noteq> 0 \<and> psi g = psi0 * pi / 180 \<and> p_x g = p_t g / tan (psi g))"
  using Gear_init_spur Gear_init_helical by blast

theorem C8_axial_pitch_witness:
  "\<exists>g. Gear_init ''G1'' (0, 0, 1) (0, 0, 0) 2 20 45 20 7 30 None = Inr g \<and>
       psi g = pi / 4 \<and> p_t g = 2 * pi / (sqrt 2 / 2) \<and> p_x g = p_t g"
proof -
  obtain g where g: "Gear_init ''G1'' (0, 0, 1) (0, 0, 0) 2 20 45 20 7 30 None = Inr g"
    and pt: "p_t g = 2 * pi / (sqrt 2 / 2)"
    by (simp add: Gear_init_def py_div_def ebind_def Let_def cos_45 tan_45)
  from g have "(45::real) \<noteq> 0 \<and>
      Gear_init ''G1'' (0, 0, 1) (0, 0, 0) 2 20 45 20 7 30 None = Inr g"
    by simp
  with C8_axial_pitch [of "''G1''" "(0, 0, 1)" "(0, 0, 0)" 2 20 20 7 30 None 45]
  have "tan (psi g) \<noteq> 0 \<and> psi g = 45 * pi / 180 \<and> p_x g = p_t g / tan (psi g)"
    by blast
  then have a: "psi g = pi / 4" and b: "p_x g = p_t g / tan (psi g)"
    by simp_all
  from b have "p_x g = p_t g"
    unfolding a by (simp add: tan_45)
  with g pt a show ?thesis by blast
qed

subsection \<open>The reliability factor\<close>

lemma reliability_factor_hits:
  "reliability_factor 0.9999 = Inr 1.5" "reliability_factor 0.999 = Inr 1.25"
  "reliability_factor 0.99 = Inr 1" "reliability_factor 0.9 = Inr 0.85"
  "reliability_factor 0.5 = Inr 0.7"
  by (simp_all add: reliability_factor_def rel_ref_def YZ_ref_def np_where_eq_def py_get_def)

lemma np_interp_reliability:
  "rel \<noteq> 0.5 \<Longrightarrow>
   np_interp rel rel_ref YZ_ref = Inr (if 0.5 < rel then 0.7 else 1.5)"
  by (simp add: np_interp_def rel_ref_def YZ_ref_def)

text \<open>
  C3. The five table entries give their paired values. For a reliability that is not
  in the table, such as 0.75, \<^verbatim>\<open>calculateBendingSF\<close> does not arrive at the linear
  interpolation 0.79375 between 0.85 and 0.7: \<^verbatim>\<open>np.interp\<close>, given the table in its
  decreasing order, returns the end value 0.7, and indexing that scalar with [0] raises
  IndexError.
\<close>

theorem C3_reliability_factor:
  "reliability_factor 0.9999 = Inr 1.5 \<and> reliability_factor 0.999 = Inr 1.25 \<and>
   reliability_factor 0.99 = Inr 1 \<and> reliability_factor 0.9 = Inr 0.85 \<and>
   reliability_factor 0.5 = Inr 0.7 \<and>
   np_interp 0.75 rel_ref YZ_ref = Inr 0.7 \<and>
   reliability_factor 0.75 = Inl IndexError \<and>
   fst (calculateBendingSF ((spur ''G0'' 20 [] [])\<lparr>sigma_max_fatigue := Some 100\<rparr>)
          200 1 1 1 100 0.75) = Inl IndexError"
proof -
  have i: "np_interp 0.75 rel_ref YZ_ref = Inr 0.7"
    by (simp add: np_interp_reliability)
  have m: "(0.75::real) \<notin> set rel_ref"
    by (simp add: rel_ref_def)
  have r: "reliability_factor 0.75 = Inl IndexError"
    using m i by (simp add: reliability_factor_def ebind_def scalar_index0_def)
  have "fst (calculateBendingSF ((spur ''G0'' 20 [] [])\<lparr>sigma_max_fatigue := Some 100\<rparr>)
          200 1 1 1 100 0.75) = Inl IndexError"
    using r by (simp add: calculateBendingSF_def py_pow_def)
  with i r reliability_factor_hits show ?thesis by simp
qed

subsection \<open>The temperature factor\<close>

text \<open>
  C10. On a gear whose \<open>Y_theta\<close> has never been assigned, as after construction,
  \<^verbatim>\<open>calculateBendingSF\<close> with \<open>temp > 120\<close> always ends in an error and leaves
  \<open>Y_theta\<close> and \<open>bendingSF\<close> unassigned; once the power and the reliability factor
  are computed, the error is the missing attribute: \<open>Y_theta\<close> when the bending
  stress has been computed before, \<open>sigma_max_fatigue\<close> on a gear straight from the
  constructor. With \<open>temp \<le> 120\<close>, \<open>Y_theta\<close> is set to 1, and a safety factor is
  stored when the bending stress is there.
\<close>

theorem C10_missing_temperature_factor:
  assumes "Y_theta self = None"
  shows "(120 < temp \<longrightarrow>
            (\<exists>e s. calculateBendingSF self sigma_FP0 b_YN e_YN N temp rel = (Inl e, s) \<and>
                   Y_theta s = None \<and> bendingSF s = bendingSF self)) \<and>
         (120 < temp \<and> py_pow N e_YN = Inr pw \<and> reliability_factor rel = Inr yz \<and>
          sigma_max_fatigue self = Some smf \<longrightarrow>
            fst (calculateBendingSF self sigma_FP0 b_YN e_YN N temp rel) =
              Inl (AttributeError ''Y_theta'')) \<and>
         (120 < temp \<and> py_pow N e_YN = Inr pw \<and> reliability_factor rel = Inr yz \<and>
          sigma_max_fatigue self = None \<longrightarrow>
            fst (calculateBendingSF self sigma_FP0 b_YN e_YN N temp rel) =
              Inl (AttributeError ''sigma_max_fatigue'')) \<and>
         (temp \<le> 120 \<and> py_pow N e_YN = Inr pw \<longrightarrow>
            Y_theta (snd (calculateBendingSF self sigma_FP0 b_YN e_YN N temp rel)) = Some 1) \<and>
         (temp \<le> 120 \<and> py_pow N e_YN = Inr pw \<and> reliability_factor rel = Inr yz \<and>
          sigma_max_fatigue self = Some smf \<longrightarrow>
            fst (calculateBendingSF self sigma_FP0 b_YN e_YN N temp rel) = Inr () \<and>
            bendingSF (snd (calculateBendingSF self sigma_FP0 b_YN e_YN N temp rel)) =
              Some (np_div (np_div (np_div (Finite (sigma_FP0 * (b_YN * pw))) smf) 1) yz))"
  using assms
  by (auto simp: calculateBendingSF_def Let_def split: sum.splits option.splits)

theorem C10_missing_temperature_factor_witness:
  "fst (calculateBendingSF ((spur ''G0'' 20 [] [])\<lparr>sigma_max_fatigue := Some 100\<rparr>)
          200 1 1 1 150 0.99) = Inl (AttributeError ''Y_theta'') \<and>
   fst (calculateBendingSF (spur ''G0'' 20 [] []) 200 1 1 1 150 0.99) =
     Inl (AttributeError ''sigma_max_fatigue'') \<and>
   fst (calculateBendingSF ((spur ''G0'' 20 [] [])\<lparr>sigma_max_fatigue := Some 100\<rparr>)
          200 1 1 1 100 0.99) = Inr () \<and>
   bendingSF (snd (calculateBendingSF ((spur ''G0'' 20 [] [])\<lparr>sigma_max_fatigue := Some 100\<rparr>)
          200 1 1 1 100 0.99)) = Some (Finite 2)"
proof -
  have p: "py_pow 1 1 = Inr 1"
    by (simp add: py_pow_def)
  have r: "reliability_factor 0.99 = Inr 1"
    by (rule reliability_factor_hits)
  have y: "Y_theta ((spur ''G0'' 20 [] [])\<lparr>sigma_max_fatigue := Some 100\<rparr>) = None"
    "Y_theta (spur ''G0'' 20 [] []) = None"
    and f: "sigma_max_fatigue ((spur ''G0'' 20 [] [])\<lparr>sigma_max_fatigue := Some 100\<rparr>) = Some 100"
    "sigma_max_fatigue (spur ''G0'' 20 [] []) = None"
    by (simp_all add: spur_def)
  show ?thesis
    using C10_missing_temperature_factor [OF y(1), of 150 200 1 1 1 "0.99" 1 1 100]
      C10_missing_temperature_factor [OF y(2), of 150 200 1 1 1 "0.99" 1 1 100]
      C10_missing_temperature_factor [OF y(1), of 100 200 1 1 1 "0.99" 1 1 100]
      p r f
    by simp
qed

subsection \<open>The solver: what a call that solves nothing leaves behind\<close>

text \<open>
  C6. On a gear without meshes \<^verbatim>\<open>solve\<close> reports "unconfigured" as its status, not
  as an error, and the whole world (the gear, every mesh, every shaft, every force and
  torque object) is as before.
\<close>

theorem C6_unconfigured_is_noop:
  "meshes (gears w g) = [] \<Longrightarrow> solve w g = (Inr Unconfigured, w)"
  by (simp add: solve_def)

theorem C6_unconfigured_is_noop_witness:
  "meshes (gears ex_world 2) = [] \<and> solve ex_world 2 = (Inr Unconfigured, ex_world)"
proof -
  have m: "meshes (gears ex_world 2) = []"
    by (simp add: ex_world_def spur_def)
  from m C6_unconfigured_is_noop [OF m] show ?thesis by simp
qed

lemma classify_resolved_step:
  assumes "w1 = gear_updateEFs (snd (new_Force w v l)) g [fst (new_Force w v l)]"
  shows "torques w1 = torques w" and "next_torque w1 = next_torque w"
    and "mesh_store w1 = mesh_store w" and "shafts w1 = shafts w"
    and "next_force w1 = Suc (next_force w)"
    and "forces w1 = (forces w)(next_force w := \<lparr>force = v, f_loc = l\<rparr>)"
    and "gears w1 =
           (gears w)(g := (gears w g)\<lparr>EFs := updateEFs (EFs (gears w g)) [next_force w]\<rparr>)"
  by (simp_all add: assms gear_updateEFs_def new_Force_def)

lemma classify_invariant:
  assumes "classify g ms (w, uF, um) = (w', uF', um')"
    and "allocated w g ms"
  shows "torques w' = torques w \<and> next_torque w' = next_torque w \<and>
         mesh_store w' = mesh_store w \<and> shafts w' = shafts w \<and>
         (\<forall>r < next_force w. forces w' r = forces w r) \<and>
         gears w' = (gears w)(g := (gears w g)
           \<lparr>EFs := EFs (gears w g) @ [next_force w ..< next_force w']\<rparr>) \<and>
         next_force w' = next_force w + length (filter (\<lambda>m. \<not> unresolved w m) ms) \<and>
         uF' = uF + length (filter (unresolved w) ms)"
  using assms
proof (induction ms arbitrary: w uF um)
  case Nil
  then show ?case by simp
next
  case (Cons m ms)
  from Cons.prems(2) have alloc_m: "F (mesh_store w m) < next_force w"
    and alloc_ms: "list_all (\<lambda>m. F (mesh_store w m) < next_force w) ms"
    and alloc_EFs: "list_all (\<lambda>r. r < next_force w) (EFs (gears w g))"
    by (simp_all add: allocated_def)
  show ?case
  proof (cases "unresolved w m")
    case True
    with Cons.prems(1) have run: "classify g ms (w, uF + 1, Some m) = (w', uF', um')"
      by (simp add: unresolved_def Let_def)
    from alloc_ms alloc_EFs have "allocated w g ms"
      by (simp add: allocated_def)
    note IH = Cons.IH [OF run this]
    from IH have i1: "torques w' = torques w" and i2: "next_torque w' = next_torque w"
      and i3: "mesh_store w' = mesh_store w" and i4: "shafts w' = shafts w"
      and i5: "\<forall>r < next_force w. forces w' r = forces w r"
      and i6: "gears w' = (gears w)(g := (gears w g)
           \<lparr>EFs := EFs (gears w g) @ [next_force w ..< next_force w']\<rparr>)"
      and j7: "next_force w' = next_force w + length (filter (\<lambda>m. \<not> unresolved w m) ms)"
      and j8: "uF' = uF + 1 + length (filter (unresolved w) ms)"
      by blast+
    from j7 True
    have i7: "next_force w' = next_force w + length (filter (\<lambda>m. \<not> unresolved w m) (m # ms))"
      by simp
    from j8 True have i8: "uF' = uF + length (filter (unresolved w) (m # ms))"
      by simp
    show ?thesis
      by (intro conjI i1 i2 i3 i4 i5 i6 i7 i8)
  next
    case False
    define sign :: real where
      "sign = (if name (gears w g) = name (gears w (drivingGear (mesh_store w m)))
               then - 1 else 1)"
    define v where "v = vscale sign (force (forces w (F (mesh_store w m))))"
    define l where "l = f_loc (forces w (F (mesh_store w m)))"
    define w1 where "w1 = gear_updateEFs (snd (new_Force w v l)) g [fst (new_Force w v l)]"
    note step = classify_resolved_step [OF w1_def]
    from Cons.prems(1) False have run: "classify g ms (w1, uF, um) = (w', uF', um')"
      by (simp add: unresolved_def Let_def w1_def v_def l_def sign_def split_beta)
    from alloc_EFs have fresh: "next_force w \<notin> set (EFs (gears w g))"
      by (auto simp: list_all_iff)
    then have g1: "gears w1 =
        (gears w)(g := (gears w g)\<lparr>EFs := EFs (gears w g) @ [next_force w]\<rparr>)"
      by (simp add: step(7))
    then have EFs1: "EFs (gears w1 g) = EFs (gears w g) @ [next_force w]"
      by simp
    from alloc_ms alloc_EFs have alloc1: "allocated w1 g ms"
      by (auto simp: allocated_def list_all_iff step(3) step(5) EFs1)
    have same: "unresolved w1 m' = unresolved w m'" if "m' \<in> set ms" for m'
    proof -
      from that alloc_ms have "F (mesh_store w m') \<noteq> next_force w"
        by (auto simp: list_all_iff)
      then show ?thesis
        by (simp add: unresolved_def step(3) step(6))
    qed
    then have filters: "filter (unresolved w1) ms = filter (unresolved w) ms"
      "filter (\<lambda>m. \<not> unresolved w1 m) ms = filter (\<lambda>m. \<not> unresolved w m) ms"
      by (auto intro: filter_cong)
    note IH = Cons.IH [OF run alloc1]
    from IH have j1: "torques w' = torques w1" and j2: "next_torque w' = next_torque w1"
      and j3: "mesh_store w' = mesh_store w1" and j4: "shafts w' = shafts w1"
      and j5: "\<forall>r < next_force w1. forces w' r = forces w1 r"
      and j6: "gears w' = (gears w1)(g := (gears w1 g)
           \<lparr>EFs := EFs (gears w1 g) @ [next_force w1 ..< next_force w']\<rparr>)"
      and j7: "next_force w' = next_force w1 + length (filter (\<lambda>m. \<not> unresolved w1 m) ms)"
      and j8: "uF' = uF + length (filter (unresolved w1) ms)"
      by blast+
    from j1 have i1: "torques w' = torques w" by (simp add: step(1))
    from j2 have i2: "next_torque w' = next_torque w" by (simp add: step(2))
    from j3 have i3: "mesh_store w' = mesh_store w" by (simp add: step(3))
    from j4 have i4: "shafts w' = shafts w" by (simp add: step(4))
    have i5: "\<forall>r < next_force w. forces w' r = forces w r"
    proof (intro allI impI)
      fix r assume r: "r < next_force w"
      then have "r < next_force w1" by (simp add: step(5))
      with j5 have "forces w' r = forces w1 r" by blast
      also from r have "forces w1 r = forces w r" by (simp add: step(6))
      finally show "forces w' r = forces w r" .
    qed
    from j7 have nf: "next_force w < next_force w'"
      by (simp add: step(5))
    then have upt: "[next_force w ..< next_force w'] =
        next_force w # [Suc (next_force w) ..< next_force w']"
      by (rule upt_conv_Cons)
    have i6: "gears w' = (gears w)(g := (gears w g)
           \<lparr>EFs := EFs (gears w g) @ [next_force w ..< next_force w']\<rparr>)"
      unfolding j6 upt step(5) g1 by simp
    from j7 False
    have i7: "next_force w' = next_force w + length (filter (\<lambda>m. \<not> unresolved w m) (m # ms))"
      by (simp add: filters step(5))
    from j8 False have i8: "uF' = uF + length (filter (unresolved w) (m # ms))"
      by (simp add: filters)
    show ?thesis
      by (intro conjI i1 i2 i3 i4 i5 i6 i7 i8)
  qed
qed

lemma classify_nothing_resolved:
  "list_all (unresolved w) ms \<Longrightarrow>
   classify g ms (w, uF, um) = (w', uF', um') \<Longrightarrow> w' = w"
  by (induction ms arbitrary: uF um) (simp_all add: unresolved_def Let_def)

text \<open>
  C1, as the code has it. When the classification pass of \<^verbatim>\<open>solve\<close> counts more than
  one unknown, \<^verbatim>\<open>solve\<close> reports "not solvable" as its status and returns. The
  torques, the meshes, the shafts, every other gear and every force object that existed
  before the call (so every mesh's force fields) are unchanged, and so is the gear but
  for its \<open>EFs\<close>: the pass has appended to them one new force object for each mesh
  that was already resolved, behind the forces that were there. When no mesh of the
  gear is resolved, nothing at all has changed.
\<close>

theorem C1_not_solvable_frame:
  assumes "meshes (gears w g) \<noteq> []"
    and "checkTorqueEquilibrium w (gears w g) = Inr False"
    and "allocated w g (meshes (gears w g))"
    and "1 < unknowns w g"
  shows "fst (solve w g) = Inr NotSolvable \<and>
         torques (snd (solve w g)) = torques w \<and>
         next_torque (snd (solve w g)) = next_torque w \<and>
         mesh_store (snd (solve w g)) = mesh_store w \<and>
         shafts (snd (solve w g)) = shafts w \<and>
         (\<forall>r < next_force w. forces (snd (solve w g)) r = forces w r) \<and>
         gears (snd (solve w g)) = (gears w)(g := (gears w g)
           \<lparr>EFs := EFs (gears w g) @ [next_force w ..< next_force (snd (solve w g))]\<rparr>) \<and>
         next_force (snd (solve w g)) =
           next_force w + length (filter (\<lambda>m. \<not> unresolved w m) (meshes (gears w g))) \<and>
         (list_all (unresolved w) (meshes (gears w g)) \<longrightarrow> snd (solve w g) = w)"
proof -
  obtain w' uF' um' where run: "classify g (meshes (gears w g)) (w, 0, None) = (w', uF', um')"
    by (cases "classify g (meshes (gears w g)) (w, 0, None)") auto
  note inv = classify_invariant [OF run assms(3)]
  from inv have "uF' = 0 + length (filter (unresolved w) (meshes (gears w g)))"
    by blast
  with assms(4) have many: "1 < uF' + (if ETs (gears w g) = [] then 1 else 0)"
    by (simp add: unknowns_def)
  have result: "solve w g = (Inr NotSolvable, w')"
    using assms(1) assms(2) many by (simp add: solve_def Let_def run)
  have untouched: "list_all (unresolved w) (meshes (gears w g)) \<longrightarrow> w' = w"
    using classify_nothing_resolved [OF _ run] by blast
  from inv have k1: "torques w' = torques w" and k2: "next_torque w' = next_torque w"
    and k3: "mesh_store w' = mesh_store w" and k4: "shafts w' = shafts w"
    and k5: "\<forall>r < next_force w. forces w' r = forces w r"
    and k6: "gears w' = (gears w)(g := (gears w g)
           \<lparr>EFs := EFs (gears w g) @ [next_force w ..< next_force w']\<rparr>)"
    and k7: "next_force w' =
           next_force w + length (filter (\<lambda>m. \<not> unresolved w m) (meshes (gears w g)))"
    by blast+
  show ?thesis
    unfolding result fst_conv snd_conv
    by (intro conjI refl k1 k2 k3 k4 k5 k6 k7) (rule untouched)
qed

text \<open>
  The gear's own \<open>EFs\<close> are not among what stays: gear \<open>G1\<close> has no torque yet
  and two meshes, one resolved and one not; \<^verbatim>\<open>solve\<close> reports "not solvable", and
  the gear's \<open>EFs\<close>, empty before, hold a new force.
\<close>

lemma ex_world_resolved_solve:
  "solve ex_world_resolved 1 =
     (Inr NotSolvable,
      gear_updateEFs (snd (new_Force ex_world_resolved (0, 50, 0) (20, 0, 0))) 1 [8])"
  by (simp add: solve_def checkTorqueEquilibrium_def ex_world_resolved_def ex_world_def
      set_force_def spur_def ex_mesh_def zeros3_def new_Force_def gear_updateEFs_def Let_def)

theorem C1_not_solvable_counterexample:
  "fst (solve ex_world_resolved 1) = Inr NotSolvable \<and>
   unknowns ex_world_resolved 1 = 2 \<and>
   EFs (gears ex_world_resolved 1) = [] \<and>
   EFs (gears (snd (solve ex_world_resolved 1)) 1) = [8]"
proof -
  have c1: "fst (solve ex_world_resolved 1) = Inr NotSolvable"
    unfolding ex_world_resolved_solve by simp
  have c2: "unknowns ex_world_resolved 1 = 2"
    by (simp add: unknowns_def unresolved_def ex_world_resolved_def ex_world_def
        set_force_def spur_def ex_mesh_def zeros3_def)
  have c3: "EFs (gears ex_world_resolved 1) = []"
    by (simp add: ex_world_resolved_def ex_world_def set_force_def spur_def)
  have c4: "EFs (gears (snd (solve ex_world_resolved 1)) 1) = [8]"
    unfolding ex_world_resolved_solve
    by (simp add: gear_updateEFs_def new_Force_def ex_world_resolved_def ex_world_def
        set_force_def spur_def)
  show ?thesis
    by (intro conjI c1 c2 c3 c4)
qed

theorem C1_not_solvable_frame_witness:
  "fst (solve ex_world_resolved 1) = Inr NotSolvable \<and>
   torques (snd (solve ex_world_resolved 1)) = torques ex_world_resolved \<and>
   shafts (snd (solve ex_world_resolved 1)) = shafts ex_world_resolved \<and>
   mesh_store (snd (solve ex_world_resolved 1)) = mesh_store ex_world_resolved \<and>
   forces (snd (solve ex_world_resolved 1)) 3 = forces ex_world_resolved 3 \<and>
   next_force (snd (solve ex_world_resolved 1)) = 9"
proof -
  have g: "gears ex_world_resolved 1 = spur ''G1'' 60 [] [0, 1]"
    by (simp add: ex_world_resolved_def ex_world_def set_force_def)
  have a: "meshes (gears ex_world_resolved 1) \<noteq> []"
    unfolding g by (simp add: spur_def)
  have b: "checkTorqueEquilibrium ex_world_resolved (gears ex_world_resolved 1) = Inr False"
    unfolding g by (simp add: checkTorqueEquilibrium_def spur_def)
  have c: "allocated ex_world_resolved 1 (meshes (gears ex_world_resolved 1))"
    by (simp add: allocated_def ex_world_resolved_def ex_world_def set_force_def spur_def
        ex_mesh_def)
  have u: "unknowns ex_world_resolved 1 = 2"
    by (simp add: unknowns_def unresolved_def ex_world_resolved_def ex_world_def
        set_force_def spur_def ex_mesh_def zeros3_def)
  then have d: "1 < unknowns ex_world_resolved 1"
    by simp
  have n: "next_force ex_world_resolved = 8"
    by (simp add: ex_world_resolved_def ex_world_def set_force_def)
  have k: "length (filter (\<lambda>m. \<not> unresolved ex_world_resolved m)
             (meshes (gears ex_world_resolved 1))) = 1"
    by (simp add: unresolved_def ex_world_resolved_def ex_world_def
        set_force_def spur_def ex_mesh_def zeros3_def)
  note fr = C1_not_solvable_frame [OF a b c d]
  from fr have w1: "fst (solve ex_world_resolved 1) = Inr NotSolvable"
    and w2: "torques (snd (solve ex_world_resolved 1)) = torques ex_world_resolved"
    and w3: "shafts (snd (solve ex_world_resolved 1)) = shafts ex_world_resolved"
    and w4: "mesh_store (snd (solve ex_world_resolved 1)) = mesh_store ex_world_resolved"
    and old: "\<forall>r < next_force ex_world_resolved.
        forces (snd (solve ex_world_resolved 1)) r = forces ex_world_resolved r"
    and nxt: "next_force (snd (solve ex_world_resolved 1)) =
        next_force ex_world_resolved +
        length (filter (\<lambda>m. \<not> unresolved ex_world_resolved m)
          (meshes (gears ex_world_resolved 1)))"
    by blast+
  from old have "(3::nat) < next_force ex_world_resolved \<longrightarrow>
      forces (snd (solve ex_world_resolved 1)) 3 = forces ex_world_resolved 3"
    by blast
  then have w5: "forces (snd (solve ex_world_resolved 1)) 3 = forces ex_world_resolved 3"
    unfolding n by simp
  from nxt have w6: "next_force (snd (solve ex_world_resolved 1)) = 9"
    unfolding n k by simp
  show ?thesis
    by (intro conjI w1 w2 w3 w4 w5 w6)
qed

subsection \<open>The forces of a mesh\<close>

lemma vneg_sum3:
  "vadd (vadd (vscale (- 1) a) (vscale (- 1) b)) (vneg c) = vneg (vadd (vadd a b) c)"
  by (cases a rule: prod_cases3, cases b rule: prod_cases3, cases c rule: prod_cases3) simp

lemma vneg_vneg: "vneg (vneg a) = a"
  by (cases a rule: prod_cases3) simp

lemma vpos_sum3:
  "vneg c = zeros3 \<Longrightarrow> vadd (vadd (vscale 1 a) (vscale 1 b)) (vneg c) = vadd (vadd a b) c"
  by (cases a rule: prod_cases3, cases b rule: prod_cases3, cases c rule: prod_cases3)
    (simp add: zeros3_def)

lemma store_resultant:
  assumes "mesh_allocated w g M"
    and "w' = register_resultant
           (set_force (set_force (set_force w (F_t M) A) (F_r M) B) (F_a M) C) g M Ft Fr Fa"
  shows "force (forces w' (F_t M)) = A" and "force (forces w' (F_r M)) = B"
    and "force (forces w' (F_a M)) = C" and "force (forces w' (F M)) = vadd (vadd A B) C"
    and "EFs (gears w' g) = EFs (gears w g) @ [next_force w]"
    and "forces w' (next_force w) = \<lparr>force = vadd (vadd Ft Fr) Fa, f_loc = mesh_loc M\<rparr>"
  using assms(1) unfolding assms(2)
  by (auto simp: mesh_allocated_def register_resultant_def set_force_def new_Force_def
      gear_updateEFs_def Let_def list_all_iff)

lemma calculateForces_single:
  assumes ets: "ETs (gears w g) = ET0 # rest"
    and sm: "subtract_moments w (gears w g) (torque (torques w ET0)) = Inr ET"
    and rad: "radiality (mesh_store w mesh) = [rad]"
    and dz: "d (gears w g) \<noteq> 0" and cz: "cos (psi (gears w g)) \<noteq> 0"
    and sh: "onShaft (gears w g) = Some s"
    and al: "mesh_allocated w g (mesh_store w mesh)"
  obtains Ft Fr Fa where
    "fst (calculateForces w g mesh) = Inr ()"
    "force (forces (snd (calculateForces w g mesh)) (F_t (mesh_store w mesh))) =
       vscale (mesh_sign w g (mesh_store w mesh)) Ft"
    "force (forces (snd (calculateForces w g mesh)) (F_r (mesh_store w mesh))) =
       vscale (mesh_sign w g (mesh_store w mesh)) Fr"
    "force (forces (snd (calculateForces w g mesh)) (F_a (mesh_store w mesh))) = vneg Fa"
    "force (forces (snd (calculateForces w g mesh)) (F (mesh_store w mesh))) =
       vadd (vadd (vscale (mesh_sign w g (mesh_store w mesh)) Ft)
                  (vscale (mesh_sign w g (mesh_store w mesh)) Fr)) (vneg Fa)"
    "EFs (gears (snd (calculateForces w g mesh)) g) = EFs (gears w g) @ [next_force w]"
    "forces (snd (calculateForces w g mesh)) (next_force w) =
       \<lparr>force = vadd (vadd Ft Fr) Fa, f_loc = mesh_loc (mesh_store w mesh)\<rparr>"
proof -
  define M where "M = mesh_store w mesh"
  define sign where "sign = mesh_sign w g M"
  define w1 where "w1 = w\<lparr>torques := (torques w)(ET0 := (torques w ET0)\<lparr>torque := ET\<rparr>)\<rparr>"
  define Ft where "Ft = vscale 1000 (cross ET (vscale (2 / d (gears w g)) rad))"
  define Fr where "Fr = vscale (sign * sqrt (vsum (vmul Ft Ft)) * tan (phi_n (gears w g)) /
      cos (psi (gears w g))) rad"
  define Fa where "Fa = vscale (sgn (vsum (axis (shafts w s))) * sgn (psi (gears w g)))
      (vabs (cross rad (vscale (tan \<bar>psi (gears w g)\<bar>) Ft)))"
  define w' where "w' = register_resultant
      (set_force (set_force (set_force w1 (F_t M) (vscale sign Ft)) (F_r M) (vscale sign Fr))
         (F_a M) (vneg Fa)) g M Ft Fr Fa"
  have w1f: "gears w1 = gears w" "forces w1 = forces w" "next_force w1 = next_force w"
    "shafts w1 = shafts w"
    by (simp_all add: w1_def)
  have cf: "calculateForces w g mesh = forces_single w1 g M ET sign rad"
    using ets sm rad
    by (simp add: calculateForces_def Let_def M_def sign_def mesh_sign_def w1_def)
  have fs: "forces_single w1 g M ET sign rad = (Inr (), w')"
    using dz cz sh
    by (simp add: forces_single_def Let_def w1f Ft_def Fr_def Fa_def w'_def set_force_def)
  from al have al1: "mesh_allocated w1 g M"
    by (simp add: mesh_allocated_def w1f M_def)
  note st = store_resultant [OF al1 w'_def, unfolded w1f]
  have res: "fst (calculateForces w g mesh) = Inr ()" "snd (calculateForces w g mesh) = w'"
    by (simp_all add: cf fs)
  show thesis
  proof (rule that [of Ft Fr Fa])
    show "fst (calculateForces w g mesh) = Inr ()"
      by (rule res(1))
  qed (simp_all only: res(2) st M_def [symmetric] sign_def [symmetric])
qed

text \<open>
  C2, as the code has it. After \<^verbatim>\<open>calculateForces\<close> has resolved a mesh on the
  single-radiality path, the mesh resultant \<open>F\<close> is the sum of the stored components
  \<open>F_t + F_r + F_a\<close>, and the gear's \<open>EFs\<close> have gained one new force at the mesh
  location. That force is the sum of the components as the gear computes them, before
  they are stored with the mesh's signs: for the driving gear of the mesh it is the
  negated resultant \<open>- F\<close>; for the driven gear it is \<open>F\<close> when the stored axial
  component is zero.
\<close>

theorem C2_mesh_resultant:
  assumes "ETs (gears w g) = ET0 # rest"
    and "subtract_moments w (gears w g) (torque (torques w ET0)) = Inr ET"
    and "radiality (mesh_store w mesh) = [rad]"
    and "d (gears w g) \<noteq> 0" and "cos (psi (gears w g)) \<noteq> 0"
    and "onShaft (gears w g) = Some s"
    and "mesh_allocated w g (mesh_store w mesh)"
  shows "fst (calculateForces w g mesh) = Inr () \<and>
         force (forces (snd (calculateForces w g mesh)) (F (mesh_store w mesh))) =
           vadd (vadd (force (forces (snd (calculateForces w g mesh)) (F_t (mesh_store w mesh))))
                      (force (forces (snd (calculateForces w g mesh)) (F_r (mesh_store w mesh)))))
                (force (forces (snd (calculateForces w g mesh)) (F_a (mesh_store w mesh)))) \<and>
         EFs (gears (snd (calculateForces w g mesh)) g) = EFs (gears w g) @ [next_force w] \<and>
         f_loc (forces (snd (calculateForces w g mesh)) (next_force w)) =
           mesh_loc (mesh_store w mesh) \<and>
         (name (gears w g) = name (gears w (drivingGear (mesh_store w mesh))) \<longrightarrow>
            force (forces (snd (calculateForces w g mesh)) (next_force w)) =
              vneg (force (forces (snd (calculateForces w g mesh)) (F (mesh_store w mesh))))) \<and>
         (name (gears w g) \<noteq> name (gears w (drivingGear (mesh_store w mesh))) \<and>
          force (forces (snd (calculateForces w g mesh)) (F_a (mesh_store w mesh))) = zeros3 \<longrightarrow>
            force (forces (snd (calculateForces w g mesh)) (next_force w)) =
              force (forces (snd (calculateForces w g mesh)) (F (mesh_store w mesh))))"
proof -
  from assms obtain Ft Fr Fa where
    ok: "fst (calculateForces w g mesh) = Inr ()"
    and ft: "force (forces (snd (calculateForces w g mesh)) (F_t (mesh_store w mesh))) =
       vscale (mesh_sign w g (mesh_store w mesh)) Ft"
    and fr: "force (forces (snd (calculateForces w g mesh)) (F_r (mesh_store w mesh))) =
       vscale (mesh_sign w g (mesh_store w mesh)) Fr"
    and fa: "force (forces (snd (calculateForces w g mesh)) (F_a (mesh_store w mesh))) = vneg Fa"
    and ff: "force (forces (snd (calculateForces w g mesh)) (F (mesh_store w mesh))) =
       vadd (vadd (vscale (mesh_sign w g (mesh_store w mesh)) Ft)
                  (vscale (mesh_sign w g (mesh_store w mesh)) Fr)) (vneg Fa)"
    and efs: "EFs (gears (snd (calculateForces w g mesh)) g) = EFs (gears w g) @ [next_force w]"
    and new: "forces (snd (calculateForces w g mesh)) (next_force w) =
       \<lparr>force = vadd (vadd Ft Fr) Fa, f_loc = mesh_loc (mesh_store w mesh)\<rparr>"
    by (rule calculateForces_single)
  have sum: "force (forces (snd (calculateForces w g mesh)) (F (mesh_store w mesh))) =
           vadd (vadd (force (forces (snd (calculateForces w g mesh)) (F_t (mesh_store w mesh))))
                      (force (forces (snd (calculateForces w g mesh)) (F_r (mesh_store w mesh)))))
                (force (forces (snd (calculateForces w g mesh)) (F_a (mesh_store w mesh))))"
    unfolding ft fr fa ff ..
  have at: "f_loc (forces (snd (calculateForces w g mesh)) (next_force w)) =
           mesh_loc (mesh_store w mesh)"
    unfolding new by simp
  have driving: "name (gears w g) = name (gears w (drivingGear (mesh_store w mesh))) \<longrightarrow>
            force (forces (snd (calculateForces w g mesh)) (next_force w)) =
              vneg (force (forces (snd (calculateForces w g mesh)) (F (mesh_store w mesh))))"
  proof
    assume "name (gears w g) = name (gears w (drivingGear (mesh_store w mesh)))"
    then have sg: "mesh_sign w g (mesh_store w mesh) = - 1"
      by (simp add: mesh_sign_def)
    show "force (forces (snd (calculateForces w g mesh)) (next_force w)) =
          vneg (force (forces (snd (calculateForces w g mesh)) (F (mesh_store w mesh))))"
      unfolding new ff sg by (simp add: vneg_sum3 vneg_vneg)
  qed
  have driven: "name (gears w g) \<noteq> name (gears w (drivingGear (mesh_store w mesh))) \<and>
          force (forces (snd (calculateForces w g mesh)) (F_a (mesh_store w mesh))) = zeros3 \<longrightarrow>
            force (forces (snd (calculateForces w g mesh)) (next_force w)) =
              force (forces (snd (calculateForces w g mesh)) (F (mesh_store w mesh)))"
  proof (intro impI, elim conjE)
    assume "name (gears w g) \<noteq> name (gears w (drivingGear (mesh_store w mesh)))"
    then have sg: "mesh_sign w g (mesh_store w mesh) = 1"
      by (simp add: mesh_sign_def)
    assume "force (forces (snd (calculateForces w g mesh)) (F_a (mesh_store w mesh))) = zeros3"
    then have "vneg Fa = zeros3"
      unfolding fa .
    from vpos_sum3 [OF this, of Ft Fr]
    show "force (forces (snd (calculateForces w g mesh)) (next_force w)) =
          force (forces (snd (calculateForces w g mesh)) (F (mesh_store w mesh)))"
      unfolding new ff sg by simp
  qed
  show ?thesis
    by (intro conjI ok sum efs at) (insert driving driven, blast+)
qed

text \<open>
  The registered force is not the stored resultant in general: the driving gear \<open>G0\<close>,
  with torque (0, 0, 1), resolves mesh 0. The force it registers has 50 N along y, the
  resultant stored in the mesh has -50 N.
\<close>

lemma ex_world_gear0:
  "gears ex_world 0 = spur ''G0'' 20 [0] [0]"
  "mesh_store ex_world 0 = ex_mesh ''M0'' 0 1 0 ''External''"
  "next_force ex_world = 8"
  "torque (torques ex_world 0) = (0, 0, 1)"
  by (simp_all add: ex_world_def)

lemma ex_world_calculateForces:
  "fst (calculateForces ex_world 0 0) = Inr ()"
  "fst (snd (force (forces (snd (calculateForces ex_world 0 0)) 8))) = 50"
  "fst (snd (force (forces (snd (calculateForces ex_world 0 0)) 3))) = - 50"
  "EFs (gears (snd (calculateForces ex_world 0 0)) 0) = [8]"
  by (simp_all add: calculateForces_def subtract_moments_def forces_single_def
      register_resultant_def set_force_def new_Force_def gear_updateEFs_def Let_def
      ex_world_def spur_def ex_mesh_def zeros3_def)

theorem C2_mesh_resultant_counterexample:
  "fst (calculateForces ex_world 0 0) = Inr () \<and>
   EFs (gears ex_world 0) = [] \<and>
   EFs (gears (snd (calculateForces ex_world 0 0)) 0) = [8] \<and>
   F (mesh_store ex_world 0) = 3 \<and>
   force (forces (snd (calculateForces ex_world 0 0)) 8) \<noteq>
     force (forces (snd (calculateForces ex_world 0 0)) (F (mesh_store ex_world 0)))"
proof -
  have e: "EFs (gears ex_world 0) = []"
    unfolding ex_world_gear0 by (simp add: spur_def)
  have f: "F (mesh_store ex_world 0) = 3"
    unfolding ex_world_gear0 by (simp add: ex_mesh_def)
  have "fst (snd (force (forces (snd (calculateForces ex_world 0 0)) 8))) \<noteq>
      fst (snd (force (forces (snd (calculateForces ex_world 0 0)) 3)))"
    unfolding ex_world_calculateForces by simp
  then have n: "force (forces (snd (calculateForces ex_world 0 0)) 8) \<noteq>
     force (forces (snd (calculateForces ex_world 0 0)) (F (mesh_store ex_world 0)))"
    unfolding f by auto
  show ?thesis
    by (intro conjI ex_world_calculateForces(1) e ex_world_calculateForces(4) f n)
qed

theorem C2_mesh_resultant_witness:
  "fst (calculateForces ex_world 0 0) = Inr () \<and>
   force (forces (snd (calculateForces ex_world 0 0)) 3) =
     vadd (vadd (force (forces (snd (calculateForces ex_world 0 0)) 0))
                (force (forces (snd (calculateForces ex_world 0 0)) 1)))
          (force (forces (snd (calculateForces ex_world 0 0)) 2)) \<and>
   force (forces (snd (calculateForces ex_world 0 0)) 8) =
     vneg (force (forces (snd (calculateForces ex_world 0 0)) 3))"
proof -
  have g: "ETs (gears ex_world 0) = 0 # []"
    unfolding ex_world_gear0 by (simp add: spur_def)
  have sm: "subtract_moments ex_world (gears ex_world 0) (torque (torques ex_world 0)) =
      Inr (0, 0, 1)"
    unfolding ex_world_gear0 by (simp add: subtract_moments_def spur_def)
  have r: "radiality (mesh_store ex_world 0) = [(1, 0, 0)]"
    unfolding ex_world_gear0 by (simp add: ex_mesh_def)
  have dz: "d (gears ex_world 0) \<noteq> 0" and cz: "cos (psi (gears ex_world 0)) \<noteq> 0"
    and sh: "onShaft (gears ex_world 0) = Some 0"
    unfolding ex_world_gear0 by (simp_all add: spur_def)
  have al: "mesh_allocated ex_world 0 (mesh_store ex_world 0)"
    unfolding mesh_allocated_def ex_world_gear0 by (simp add: ex_mesh_def spur_def)
  have nm: "name (gears ex_world 0) =
      name (gears ex_world (drivingGear (mesh_store ex_world 0)))"
    by (simp add: ex_world_def ex_mesh_def)
  have ids: "F (mesh_store ex_world 0) = 3" "F_t (mesh_store ex_world 0) = 0"
    "F_r (mesh_store ex_world 0) = 1" "F_a (mesh_store ex_world 0) = 2"
    unfolding ex_world_gear0 by (simp_all add: ex_mesh_def)
  note th = C2_mesh_resultant [OF g sm r dz cz sh al, unfolded ids ex_world_gear0(3)]
  from th have w1: "fst (calculateForces ex_world 0 0) = Inr ()" by blast
  from th have w2: "force (forces (snd (calculateForces ex_world 0 0)) 3) =
     vadd (vadd (force (forces (snd (calculateForces ex_world 0 0)) 0))
                (force (forces (snd (calculateForces ex_world 0 0)) 1)))
          (force (forces (snd (calculateForces ex_world 0 0)) 2))" by blast
  from th nm have w3: "force (forces (snd (calculateForces ex_world 0 0)) 8) =
     vneg (force (forces (snd (calculateForces ex_world 0 0)) 3))" by blast
  show ?thesis
    by (intro conjI w1 w2 w3)
qed

subsection \<open>The surface-strength geometry factor\<close>

lemma Z_I_stored:
  assumes "elastic_coefficient pG gG = Inr ze"
    and "line_of_action self pG gG \<noteq> 0"
    and "p_n self * cos (phi_n self) / 0.95 / line_of_action self pG gG = mN"
    and "mN \<noteq> 0" and "m_G M + k \<noteq> 0"
    and "mesh_type M = ''External'' \<and> k = 1 \<or> mesh_type M = ''Internal'' \<and> k = - 1"
  shows "Z_I (snd (sigma_max_pitting_of self pG gG M Ft Z_R)) =
           Some (cos (phi_t self) * sin (phi_t self) * m_G M / (2 * mN * (m_G M + k)))"
  using assms
  by (auto simp: sigma_max_pitting_of_def py_div_def ebind_def Let_def split: option.splits)

lemma mesh_type_refused:
  assumes "mesh_type M \<noteq> ''External''" and "mesh_type M \<noteq> ''Internal''"
  shows "\<exists>e. fst (sigma_max_pitting_of self pG gG M Ft Z_R) = Inl e"
    and "Z_I (snd (sigma_max_pitting_of self pG gG M Ft Z_R)) = Z_I self"
    and "elastic_coefficient pG gG = Inr ze \<Longrightarrow> line_of_action self pG gG \<noteq> 0 \<Longrightarrow>
         fst (sigma_max_pitting_of self pG gG M Ft Z_R) =
           Inl (ValueError ''Gear mesh type invalid.'')"
  using assms
  by (auto simp: sigma_max_pitting_of_def py_div_def ebind_def Let_def split: sum.splits)

lemma calculateSigmaMaxPitting_parts:
  "fst (calculateSigmaMaxPitting w g mesh Z_R) =
     fst (sigma_max_pitting_of (gears w g) (gears w (drivingGear (mesh_store w mesh)))
            (gears w (drivenGear (mesh_store w mesh))) (mesh_store w mesh)
            (force (forces w (F_t (mesh_store w mesh)))) Z_R)"
  "gears (snd (calculateSigmaMaxPitting w g mesh Z_R)) g =
     snd (sigma_max_pitting_of (gears w g) (gears w (drivingGear (mesh_store w mesh)))
            (gears w (drivenGear (mesh_store w mesh))) (mesh_store w mesh)
            (force (forces w (F_t (mesh_store w mesh)))) Z_R)"
  by (simp_all add: calculateSigmaMaxPitting_def Let_def split_beta)

text \<open>
  C5. Once the elastic coefficient is found and the line of action \<open>ZL\<close> is not zero,
  \<^verbatim>\<open>calculateSigmaMaxPitting\<close> stores \<open>Z_I = cos(phi_t) sin(phi_t) m_G / (2 m_N (m_G + 1))\<close>
  for the mesh type "External" and the same with \<open>m_G - 1\<close> for "Internal" (the
  divisors \<open>m_N\<close> and \<open>m_G \<plusminus> 1\<close> not being zero), and for any other mesh type it raises
  the ValueError "Gear mesh type invalid." Whatever the other inputs, a mesh type other
  than these two ends the call in an error, with \<open>Z_I\<close> as it was.
\<close>

theorem C5_surface_geometry_factor:
  assumes "pG = gears w (drivingGear (mesh_store w mesh))"
    and "gG = gears w (drivenGear (mesh_store w mesh))"
    and "ZL = line_of_action (gears w g) pG gG"
    and "mN = p_n (gears w g) * cos (phi_n (gears w g)) / 0.95 / ZL"
    and "mG = m_G (mesh_store w mesh)"
    and "ty = mesh_type (mesh_store w mesh)"
    and "pt = phi_t (gears w g)"
  shows "(elastic_coefficient pG gG = Inr ze \<and> ZL \<noteq> 0 \<and> mN \<noteq> 0 \<and> mG + 1 \<noteq> 0 \<and>
          ty = ''External'' \<longrightarrow>
            Z_I (gears (snd (calculateSigmaMaxPitting w g mesh Z_R)) g) =
              Some (cos pt * sin pt * mG / (2 * mN * (mG + 1)))) \<and>
         (elastic_coefficient pG gG = Inr ze \<and> ZL \<noteq> 0 \<and> mN \<noteq> 0 \<and> mG - 1 \<noteq> 0 \<and>
          ty = ''Internal'' \<longrightarrow>
            Z_I (gears (snd (calculateSigmaMaxPitting w g mesh Z_R)) g) =
              Some (cos pt * sin pt * mG / (2 * mN * (mG - 1)))) \<and>
         (elastic_coefficient pG gG = Inr ze \<and> ZL \<noteq> 0 \<and>
          ty \<noteq> ''External'' \<and> ty \<noteq> ''Internal'' \<longrightarrow>
            fst (calculateSigmaMaxPitting w g mesh Z_R) =
              Inl (ValueError ''Gear mesh type invalid.'')) \<and>
         (ty \<noteq> ''External'' \<and> ty \<noteq> ''Internal'' \<longrightarrow>
            (\<exists>e. fst (calculateSigmaMaxPitting w g mesh Z_R) = Inl e) \<and>
            Z_I (gears (snd (calculateSigmaMaxPitting w g mesh Z_R)) g) = Z_I (gears w g))"
proof -
  have ext: "elastic_coefficient pG gG = Inr ze \<and> ZL \<noteq> 0 \<and> mN \<noteq> 0 \<and> mG + 1 \<noteq> 0 \<and>
          ty = ''External'' \<longrightarrow>
            Z_I (gears (snd (calculateSigmaMaxPitting w g mesh Z_R)) g) =
              Some (cos pt * sin pt * mG / (2 * mN * (mG + 1)))"
    unfolding calculateSigmaMaxPitting_parts assms
    using Z_I_stored [of "gears w (drivingGear (mesh_store w mesh))"
        "gears w (drivenGear (mesh_store w mesh))" ze "gears w g" _ "mesh_store w mesh" 1]
    by auto
  have int: "elastic_coefficient pG gG = Inr ze \<and> ZL \<noteq> 0 \<and> mN \<noteq> 0 \<and> mG - 1 \<noteq> 0 \<and>
          ty = ''Internal'' \<longrightarrow>
            Z_I (gears (snd (calculateSigmaMaxPitting w g mesh Z_R)) g) =
              Some (cos pt * sin pt * mG / (2 * mN * (mG - 1)))"
    unfolding calculateSigmaMaxPitting_parts assms
    using Z_I_stored [of "gears w (drivingGear (mesh_store w mesh))"
        "gears w (drivenGear (mesh_store w mesh))" ze "gears w g" _ "mesh_store w mesh" "- 1"]
    by auto
  have bad: "elastic_coefficient pG gG = Inr ze \<and> ZL \<noteq> 0 \<and>
          ty \<noteq> ''External'' \<and> ty \<noteq> ''Internal'' \<longrightarrow>
            fst (calculateSigmaMaxPitting w g mesh Z_R) =
              Inl (ValueError ''Gear mesh type invalid.'')"
    unfolding calculateSigmaMaxPitting_parts assms
    using mesh_type_refused(3) by blast
  have any: "ty \<noteq> ''External'' \<and> ty \<noteq> ''Internal'' \<longrightarrow>
            (\<exists>e. fst (calculateSigmaMaxPitting w g mesh Z_R) = Inl e) \<and>
            Z_I (gears (snd (calculateSigmaMaxPitting w g mesh Z_R)) g) = Z_I (gears w g)"
    unfolding calculateSigmaMaxPitting_parts assms
    using mesh_type_refused(1) mesh_type_refused(2) by blast
  show ?thesis
    by (intro conjI) (rule ext, rule int, rule bad, rule any)
qed

lemma sqrt_404: "sqrt 404 \<le> 40"
  by (rule real_le_lsqrt) simp_all

lemma sqrt_3604: "\<not> sqrt 3604 \<le> 40"
proof -
  have "40 < sqrt 3604"
    by (rule real_less_rsqrt) simp
  then show ?thesis by simp
qed

lemma ex_world_pitting_inputs:
  "elastic_coefficient (gears ex_world (drivingGear (mesh_store ex_world mesh)))
     (gears ex_world (drivenGear (mesh_store ex_world mesh))) = Inr 191"
  "line_of_action (gears ex_world g) (gears ex_world (drivingGear (mesh_store ex_world mesh)))
     (gears ex_world (drivenGear (mesh_store ex_world mesh))) = sqrt 404"
  "p_n (gears ex_world g) = 2 * pi" "phi_n (gears ex_world g) = pi / 6"
  "phi_t (gears ex_world g) = pi / 6" "m_G (mesh_store ex_world mesh) = 3"
  by (simp_all add: ex_world_def ex_mesh_def spur_def steel_def elastic_coefficient_def
      material_index_def ZE_ref_def line_of_action_def sin_30 min_def sqrt_404 sqrt_3604)

theorem C5_surface_geometry_factor_witness:
  "Z_I (gears (snd (calculateSigmaMaxPitting ex_world 0 0 1)) 0) =
     Some (cos (pi / 6) * sin (pi / 6) * 3 /
           (2 * (2 * pi * cos (pi / 6) / 0.95 / sqrt 404) * (3 + 1))) \<and>
   Z_I (gears (snd (calculateSigmaMaxPitting ex_world 1 1 1)) 1) =
     Some (cos (pi / 6) * sin (pi / 6) * 3 /
           (2 * (2 * pi * cos (pi / 6) / 0.95 / sqrt 404) * (3 - 1))) \<and>
   fst (calculateSigmaMaxPitting ex_world 1 2 1) = Inl (ValueError ''Gear mesh type invalid.'')"
proof -
  have ty: "mesh_type (mesh_store ex_world 0) = ''External''"
    "mesh_type (mesh_store ex_world 1) = ''Internal''"
    "mesh_type (mesh_store ex_world 2) = ''Bevel''"
    by (simp_all add: ex_world_def ex_mesh_def)
  have nz: "2 * pi * cos (pi / 6) / 0.95 / sqrt 404 \<noteq> 0"
    by (simp add: cos_30)
  note inst = C5_surface_geometry_factor [OF refl refl refl refl refl refl refl,
      where w = ex_world and ze = 191 and Z_R = 1, unfolded ex_world_pitting_inputs]
  from inst [where g = 0 and mesh = 0, unfolded ty] nz
  have w1: "Z_I (gears (snd (calculateSigmaMaxPitting ex_world 0 0 1)) 0) =
     Some (cos (pi / 6) * sin (pi / 6) * 3 /
           (2 * (2 * pi * cos (pi / 6) / 0.95 / sqrt 404) * (3 + 1)))"
    by simp
  from inst [where g = 1 and mesh = 1, unfolded ty] nz
  have w2: "Z_I (gears (snd (calculateSigmaMaxPitting ex_world 1 1 1)) 1) =
     Some (cos (pi / 6) * sin (pi / 6) * 3 /
           (2 * (2 * pi * cos (pi / 6) / 0.95 / sqrt 404) * (3 - 1)))"
    by simp
  from inst [where g = 1 and mesh = 2, unfolded ty]
  have w3: "fst (calculateSigmaMaxPitting ex_world 1 2 1) =
     Inl (ValueError ''Gear mesh type invalid.'')"
    by simp
  show ?thesis
    by (intro conjI w1 w2 w3)
qed

end
